theory Spec2Isabelle
  imports Complex_Main "HOL-Library.Sublist"
begin

section \<open>Python values, exceptions and results\<close>

text \<open>
  The values that occur in the dictionaries the collectors build: \<open>None\<close>, strings,
  integers, timestamps (\<open>datetime\<close> values, as a number) and lists of strings (the
  keywords). A dictionary is an association list with string keys; \<open>d.get(k)\<close> is
  \<open>dict_get\<close> and \<open>d.get(k, v)\<close> is \<open>dict_get_default\<close>.
\<close>

datatype pyval = PyNone | PyStr string | PyInt int | PyTime int | PyList "string list"

type_synonym pydict = "(string \<times> pyval) list"

definition dict_get :: "pydict \<Rightarrow> string \<Rightarrow> pyval" where
  "dict_get d k = (case map_of d k of None \<Rightarrow> PyNone | Some v \<Rightarrow> v)"

definition dict_get_default :: "pydict \<Rightarrow> string \<Rightarrow> pyval \<Rightarrow> pyval" where
  "dict_get_default d k v0 = (case map_of d k of None \<Rightarrow> v0 | Some v \<Rightarrow> v)"

text \<open>Python truthiness, and \<open>a or b\<close>, which yields \<open>a\<close> when it is truthy, else \<open>b\<close>.\<close>

fun truthy :: "pyval \<Rightarrow> bool" where
  "truthy PyNone = False"
| "truthy (PyStr s) = (s \<noteq> [])"
| "truthy (PyInt i) = (i \<noteq> 0)"
| "truthy (PyTime t) = True"
| "truthy (PyList l) = (l \<noteq> [])"

definition py_or :: "pyval \<Rightarrow> pyval \<Rightarrow> pyval" where
  "py_or a b = (if truthy a then a else b)"

text \<open>
  Exceptions that the modelled code distinguishes: \<open>tweepy.TooManyRequests\<close> has a
  handler of its own, every other subclass of \<open>Exception\<close> is caught by
  \<open>except Exception\<close>. Both carry their message (\<open>str(e)\<close>). A call returns a value
  or raises.
\<close>

datatype exn = TooManyRequests string | Exception string

datatype 'a result = Raised exn | Returned 'a

section \<open>Twitter collector: the retry loop of \<open>collect_tweets\<close>\<close>

text \<open>
  One pass through the \<open>try\<close> body of \<open>collect_tweets\<close>: the paginator yields tweets
  (\<open>fetched\<close>, in order, each with its \<open>lang\<close> and the dictionary built from it) until it
  is exhausted (\<open>failure = None\<close>, the \<open>break\<close>) or raises (\<open>failure = Some e\<close>). Tweets whose
  language is \<open>en\<close> have been appended to \<open>tweets_data\<close> by then, and \<open>tweets_data\<close> is
  not reset between attempts. The Twitter API is a parameter: it gives the outcome of the
  attempt with a given index.
\<close>

record attempt_outcome =
  fetched :: "(string \<times> pydict) list"
  failure :: "exn option"

record fetch_run =
  returned :: "pydict list"
  waits :: "int list"
  attempts_made :: nat

definition max_retries :: nat where
  "max_retries = 3"

definition english_tweets :: "(string \<times> pydict) list \<Rightarrow> pydict list" where
  "english_tweets ts = map snd (filter (\<lambda>t. fst t = ''en'') ts)"

text \<open>
  The \<open>for attempt in range(max_retries)\<close> loop, by recursion on the attempts that remain.
  \<open>backoff_time\<close> and \<open>tweets_data\<close> are the local variables of the source; \<open>slept\<close>
  records the arguments of \<open>time.sleep\<close> in order and \<open>n\<close> counts the attempts started.
\<close>

fun retry_loop ::
  "(nat \<Rightarrow> attempt_outcome) \<Rightarrow> nat list \<Rightarrow> pydict list \<Rightarrow> int \<Rightarrow> int list \<Rightarrow> nat \<Rightarrow> fetch_run"
where
  "retry_loop api [] tweets_data backoff_time slept n =
     \<lparr>returned = tweets_data, waits = slept, attempts_made = n\<rparr>"
| "retry_loop api (attempt # rest) tweets_data backoff_time slept n =
     (let tweets_data' = tweets_data @ english_tweets (fetched (api attempt)) in
      case failure (api attempt) of
        None \<Rightarrow> \<lparr>returned = tweets_data', waits = slept, attempts_made = Suc n\<rparr>
      | Some (TooManyRequests m) \<Rightarrow>
          if attempt < max_retries - 1
          then retry_loop api rest tweets_data' (backoff_time * 2) (slept @ [backoff_time]) (Suc n)
          else \<lparr>returned = [], waits = slept, attempts_made = Suc n\<rparr>
      | Some (Exception m) \<Rightarrow>
          if attempt < max_retries - 1
          then retry_loop api rest tweets_data' backoff_time (slept @ [min backoff_time 30]) (Suc n)
          else \<lparr>returned = [], waits = slept, attempts_made = Suc n\<rparr>)"

definition collect_tweets :: "(nat \<Rightarrow> attempt_outcome) \<Rightarrow> fetch_run" where
  "collect_tweets api = retry_loop api [0 ..< max_retries] [] 60 [] 0"

definition is_rate_limit :: "exn option \<Rightarrow> bool" where
  "is_rate_limit f = (case f of Some (TooManyRequests m) \<Rightarrow> True | _ \<Rightarrow> False)"

section \<open>Error handler: \<open>_should_retry\<close>\<close>

text \<open>
  \<open>str(error).lower()\<close> on a message of ASCII characters, and Python's substring test
  \<open>term in s\<close>. The terms of the three lists are those of the source, in its order.
\<close>

definition lower_char :: "char \<Rightarrow> char" where
  "lower_char c =
     (if (65::nat) \<le> of_char c \<and> of_char c \<le> (90::nat) then char_of (of_char c + (32::nat)) else c)"

definition str_lower :: "string \<Rightarrow> string" where
  "str_lower s = map lower_char s"

definition contains_any :: "string list \<Rightarrow> string \<Rightarrow> bool" where
  "contains_any terms s = list_ex (\<lambda>t. sublist t s) terms"

definition network_terms :: "string list" where
  "network_terms = [''timeout'', ''connection'', ''network'']"

definition rate_terms :: "string list" where
  "rate_terms = [''rate limit'', ''too many requests'']"

definition auth_terms :: "string list" where
  "auth_terms = [''unauthorized'', ''forbidden'', ''invalid credentials'']"

definition should_retry :: "string \<Rightarrow> int \<Rightarrow> bool" where
  "should_retry msg error_count =
     (if error_count > 5 then False
      else if contains_any network_terms (str_lower msg) then True
      else if contains_any rate_terms (str_lower msg) then True
      else if contains_any auth_terms (str_lower msg) then False
      else error_count \<le> 3)"

text \<open>Concrete Twitter APIs used as inputs below.\<close>

definition rate_limited_api :: "nat \<Rightarrow> attempt_outcome" where
  "rate_limited_api i =
     \<lparr>fetched = [(''en'', [(''id'', PyInt (int i))])], failure = Some (TooManyRequests ''429 Too Many Requests'')\<rparr>"

definition unauthorized_api :: "nat \<Rightarrow> attempt_outcome" where
  "unauthorized_api i = \<lparr>fetched = [], failure = Some (Exception ''401 Unauthorized'')\<rparr>"

section \<open>Data processor: \<open>process_batch_data\<close>\<close>

text \<open>
  \<open>createDataFrame(posts_data, schema)\<close> keeps, for each dictionary, the columns of
  \<open>define_schema\<close> in its order; a key the dictionary lacks is null, a key outside the
  schema is not carried over. The columns \<open>id\<close>, \<open>text\<close>, \<open>platform\<close> and \<open>author_id\<close> are
  declared \<open>StringType\<close>: Spark accepts any value there and stores its string form, so an
  integer (a tweet's \<open>id\<close> and \<open>author_id\<close>) becomes its decimal string; the string form
  of a value that is neither a string nor an integer is a parameter. The values of the
  other columns are carried over as they are; a value that such a column does not
  accept makes the job fail. The filter keeps a row when its \<open>text\<close> is not null and
  \<open>length(text) > 10\<close>; \<open>distinct()\<close> removes rows that agree on every column (Spark
  fixes no order after it: the model keeps one occurrence, and only membership and
  multiplicity are used below). Three columns are then added. Any failure of the Spark
  job is an exception inside the \<open>try\<close>; whether the job fails on a batch is a parameter.
\<close>

definition define_schema :: "string list" where
  "define_schema = [''id'', ''text'', ''platform'', ''created_at'', ''author_id'', ''likes'',
     ''retweets'', ''collected_at'', ''keywords'']"

definition string_columns :: "string list" where
  "string_columns = [''id'', ''text'', ''platform'', ''author_id'']"

function decimal :: "nat \<Rightarrow> string" where
  "decimal n =
     (if n < 10 then [char_of (48 + n)] else decimal (n div 10) @ [char_of (48 + n mod 10)])"
  by pat_completeness auto
termination
  by (relation "measure (\<lambda>n. n)") auto

declare decimal.simps [simp del]

definition decimal_int :: "int \<Rightarrow> string" where
  "decimal_int i = (if i < 0 then CHR ''-'' # decimal (nat (- i)) else decimal (nat i))"

record spark_env =
  spark_failure :: "pydict list \<Rightarrow> exn option"
  spark_clock :: int
  java_string :: "pyval \<Rightarrow> string"

definition spark_string :: "spark_env \<Rightarrow> pyval \<Rightarrow> pyval" where
  "spark_string sp v =
     (case v of
        PyNone \<Rightarrow> PyNone
      | PyStr s \<Rightarrow> PyStr s
      | PyInt i \<Rightarrow> PyStr (decimal_int i)
      | _ \<Rightarrow> PyStr (java_string sp v))"

definition column_value :: "spark_env \<Rightarrow> pydict \<Rightarrow> string \<Rightarrow> pyval" where
  "column_value sp post f =
     (if f \<in> set string_columns then spark_string sp (dict_get post f) else dict_get post f)"

definition to_row :: "spark_env \<Rightarrow> pydict \<Rightarrow> pydict" where
  "to_row sp post = map (\<lambda>f. (f, column_value sp post f)) define_schema"

definition text_filter :: "pydict \<Rightarrow> bool" where
  "text_filter row = (case dict_get row ''text'' of PyStr t \<Rightarrow> length t > 10 | _ \<Rightarrow> False)"

definition word_count :: "string \<Rightarrow> int" where
  "word_count t = int (length (filter (\<lambda>c. c = CHR '' '') t)) + 1"

definition with_processing_columns :: "int \<Rightarrow> pydict \<Rightarrow> pydict" where
  "with_processing_columns now row =
     row @ [(''processing_time'', PyTime now),
            (''text_length'', (case dict_get row ''text'' of PyStr t \<Rightarrow> PyInt (int (length t)) | _ \<Rightarrow> PyNone)),
            (''word_count'', (case dict_get row ''text'' of PyStr t \<Rightarrow> PyInt (word_count t) | _ \<Rightarrow> PyNone))]"

definition process_batch_body :: "spark_env \<Rightarrow> pydict list \<Rightarrow> pydict list result" where
  "process_batch_body sp posts_data =
     (if posts_data = [] then Returned []
      else case spark_failure sp posts_data of
             Some e \<Rightarrow> Raised e
           | None \<Rightarrow> Returned (map (with_processing_columns (spark_clock sp))
                                (remdups (filter text_filter (map (to_row sp) posts_data)))))"

definition process_batch_data :: "spark_env \<Rightarrow> pydict list \<Rightarrow> pydict list result" where
  "process_batch_data sp posts_data =
     (case process_batch_body sp posts_data of
        Raised e \<Rightarrow> Returned []
      | Returned rows \<Rightarrow> Returned rows)"

section \<open>Sentiment analyzer\<close>

text \<open>
  \<open>TextBlob(text).sentiment\<close> belongs to a library: it is a parameter that gives the
  pair (polarity, subjectivity) of a text, or raises. Polarity and confidence are
  real numbers here. The prediction of a trained model (the \<open>try\<close> body of
  \<open>predict_sentiment\<close>) is a parameter as well.
\<close>

record sentiment =
  label :: string
  confidence :: real
  polarity :: "real option"
  subjectivity :: "real option"
  probabilities :: "(real \<times> real \<times> real) option"

definition textblob_sentiment :: "(string \<Rightarrow> (real \<times> real) result) \<Rightarrow> string \<Rightarrow> sentiment result" where
  "textblob_sentiment blob txt =
     (case blob txt of
        Raised e \<Rightarrow> Raised e
      | Returned (pol, subj) \<Rightarrow>
          Returned \<lparr>label = (if pol > 0.1 then ''positive''
                             else if pol < - 0.1 then ''negative''
                             else ''neutral''),
                    confidence = \<bar>pol\<bar>,
                    polarity = Some pol,
                    subjectivity = Some subj,
                    probabilities = None\<rparr>)"

record analyzer =
  is_trained :: bool
  blob :: "string \<Rightarrow> (real \<times> real) result"
  model_predict :: "string \<Rightarrow> sentiment result"

definition predict_sentiment :: "analyzer \<Rightarrow> string \<Rightarrow> sentiment result" where
  "predict_sentiment a txt =
     (if \<not> is_trained a then textblob_sentiment (blob a) txt
      else case model_predict a txt of
             Returned s \<Rightarrow> Returned s
           | Raised e \<Rightarrow> textblob_sentiment (blob a) txt)"

text \<open>
  \<open>predict_sentiment\<close> applied to the value the pipeline selected: a value that is
  not a string makes both the model path and \<open>TextBlob\<close> raise a type error.
\<close>

definition predict_value :: "analyzer \<Rightarrow> pyval \<Rightarrow> sentiment result" where
  "predict_value a v =
     (case v of PyStr s \<Rightarrow> predict_sentiment a s | _ \<Rightarrow> Raised (Exception ''TypeError''))"

section \<open>Pipeline: scoring a batch\<close>

record sentiment_result =
  post_id :: pyval
  platform :: pyval
  result_text :: pyval
  created_at :: pyval
  sentiment_of :: sentiment
  processed_at :: pyval
  metadata :: pydict

text \<open>
  The text selected for a cleaned post:
  \<open>post.get('text', '') or post.get('title', '') or post.get('description', '')\<close>.
\<close>

definition post_text :: "pydict \<Rightarrow> pyval" where
  "post_text post =
     py_or (py_or (dict_get_default post ''text'' (PyStr []))
                  (dict_get_default post ''title'' (PyStr [])))
           (dict_get_default post ''description'' (PyStr []))"

definition post_metadata :: "pydict \<Rightarrow> pydict" where
  "post_metadata post =
     [(''author_id'', py_or (dict_get post ''author_id'') (dict_get post ''author'')),
      (''likes'', dict_get_default post ''likes'' (PyInt 0)),
      (''retweets'', dict_get_default post ''retweets'' (PyInt 0)),
      (''score'', dict_get_default post ''score'' (PyInt 0))]"

definition make_result :: "int \<Rightarrow> pydict \<Rightarrow> pyval \<Rightarrow> sentiment \<Rightarrow> sentiment_result" where
  "make_result now post txt s =
     \<lparr>post_id = dict_get post ''id'',
      platform = dict_get post ''platform'',
      result_text = txt,
      created_at = dict_get post ''created_at'',
      sentiment_of = s,
      processed_at = PyTime now,
      metadata = post_metadata post\<rparr>"

text \<open>
  The \<open>for post in cleaned_posts\<close> loop. A scoring call that raises leaves the loop for
  the \<open>except\<close> clause of \<open>process_sentiment_batch\<close>, which returns the results appended
  so far: the second component says whether that happened.
\<close>

fun score_posts ::
  "analyzer \<Rightarrow> int \<Rightarrow> pydict list \<Rightarrow> sentiment_result list \<Rightarrow> sentiment_result list \<times> exn option"
where
  "score_posts a now [] sentiment_results = (sentiment_results, None)"
| "score_posts a now (post # rest) sentiment_results =
     (if truthy (post_text post) then
        (case predict_value a (post_text post) of
           Raised e \<Rightarrow> (sentiment_results, Some e)
         | Returned s \<Rightarrow>
             score_posts a now rest (sentiment_results @ [make_result now post (post_text post) s]))
      else score_posts a now rest sentiment_results)"

definition process_sentiment_batch ::
  "spark_env \<Rightarrow> analyzer \<Rightarrow> int \<Rightarrow> pydict list \<Rightarrow> sentiment_result list result"
where
  "process_sentiment_batch sp a now posts =
     (case process_batch_data sp posts of
        Raised e \<Rightarrow> Returned []
      | Returned cleaned_posts \<Rightarrow> Returned (fst (score_posts a now cleaned_posts [])))"

section \<open>Storage client and the cycle\<close>

text \<open>
  What the pipeline does to the outside world, in order. \<open>InsertRawPosts\<close> and
  \<open>InsertSentimentResults\<close> are the calls of \<open>insert_many\<close> on the two collections, with
  the batch handed over; \<open>MongoConnect\<close> and \<open>SparkCreate\<close> are the calls that open the
  storage connection and the Spark session; \<open>SparkStop\<close> and \<open>MongoClose\<close> are
  \<open>spark.stop()\<close> and \<open>client.close()\<close>; \<open>Sleep\<close> is \<open>time.sleep\<close> in the scheduler loop
  and \<open>OverrunWarning\<close> the warning logged in its place; \<open>CycleStarted\<close> marks a call of
  \<open>run_single_cycle\<close>.
\<close>

datatype event =
    MongoConnect
  | SparkCreate
  | CycleStarted
  | InsertRawPosts "pydict list"
  | InsertSentimentResults "sentiment_result list"
  | Sleep real
  | OverrunWarning
  | SparkStop
  | MongoClose

text \<open>Whether \<open>insert_many\<close> raises on a batch is a parameter of the storage.\<close>

record storage =
  raw_insert_many :: "pydict list \<Rightarrow> exn option"
  result_insert_many :: "sentiment_result list \<Rightarrow> exn option"

definition insert_raw_posts :: "storage \<Rightarrow> pydict list \<Rightarrow> event list \<times> pydict list result" where
  "insert_raw_posts db posts =
     (if posts \<noteq> [] then
        (case raw_insert_many db posts of
           None \<Rightarrow> ([InsertRawPosts posts], Returned posts)
         | Some e \<Rightarrow> ([InsertRawPosts posts], Returned []))
      else ([], Returned []))"

definition insert_sentiment_results ::
  "storage \<Rightarrow> int \<Rightarrow> sentiment_result list \<Rightarrow> event list \<times> sentiment_result list result"
where
  "insert_sentiment_results db now results =
     (if results \<noteq> [] then
        (let stamped = map (\<lambda>r. r\<lparr>processed_at := PyTime now\<rparr>) results in
         case result_insert_many db stamped of
           None \<Rightarrow> ([InsertSentimentResults stamped], Returned stamped)
         | Some e \<Rightarrow> ([InsertSentimentResults stamped], Returned []))
      else ([], Returned []))"

definition store_results ::
  "storage \<Rightarrow> int \<Rightarrow> pydict list \<Rightarrow> sentiment_result list \<Rightarrow> event list \<times> unit result"
where
  "store_results db now raw_posts sentiment_results =
     (case (if raw_posts \<noteq> [] then insert_raw_posts db raw_posts else ([], Returned [])) of
        (ev1, Raised e) \<Rightarrow> (ev1, Returned ())
      | (ev1, Returned ids) \<Rightarrow>
          (case (if sentiment_results \<noteq> []
                 then insert_sentiment_results db now sentiment_results
                 else ([], Returned [])) of
             (ev2, Raised e) \<Rightarrow> (ev1 @ ev2, Returned ())
           | (ev2, Returned ids2) \<Rightarrow> (ev1 @ ev2, Returned ())))"

text \<open>
  One cycle. The three futures of \<open>collect_data_from_all_sources\<close> each return the list a
  collector produced or raise (a timeout included); a future that raises contributes
  nothing. The statistics that \<open>run_single_cycle\<close> logs at the end have no effect outside
  the log and are left out.
\<close>

record cycle_env =
  twitter_future :: "pydict list result"
  reddit_future :: "pydict list result"
  youtube_future :: "pydict list result"
  spark :: spark_env
  sentiment_analyzer :: analyzer
  db_client :: storage
  clock :: int

definition future_posts :: "pydict list result \<Rightarrow> pydict list" where
  "future_posts f = (case f of Raised e \<Rightarrow> [] | Returned posts \<Rightarrow> posts)"

definition collect_data_from_all_sources :: "cycle_env \<Rightarrow> pydict list result" where
  "collect_data_from_all_sources env =
     Returned (future_posts (twitter_future env) @ future_posts (reddit_future env)
               @ future_posts (youtube_future env))"

definition run_single_cycle :: "cycle_env \<Rightarrow> event list \<times> unit result" where
  "run_single_cycle env =
     (case collect_data_from_all_sources env of
        Raised e \<Rightarrow> ([], Returned ())
      | Returned raw_posts \<Rightarrow>
          if raw_posts \<noteq> [] then
            (case process_sentiment_batch (spark env) (sentiment_analyzer env) (clock env) raw_posts of
               Raised e \<Rightarrow> ([], Returned ())
             | Returned sentiment_results \<Rightarrow>
                 (case store_results (db_client env) (clock env) raw_posts sentiment_results of
                    (ev, Raised e) \<Rightarrow> (ev, Returned ())
                  | (ev, Returned u) \<Rightarrow> (ev, Returned ())))
          else ([], Returned ()))"

section \<open>Pipeline construction\<close>

text \<open>
  \<open>RealTimePipeline.__init__\<close> builds its six components in order; each constructor
  calls a library that may raise, given as a parameter. \<open>MongoDBClient.connect\<close> and
  \<open>DataProcessor.setup_spark\<close> catch the exception, log it and raise it again;
  \<open>setup_indexes\<close> catches and logs; the other constructors have no handler.
\<close>

record startup =
  twitter_client :: "exn option"
  reddit_client :: "exn option"
  youtube_client :: "exn option"
  analyzer_setup :: "exn option"
  mongo_ping :: "exn option"
  mongo_indexes :: "exn option"
  spark_builder :: "exn option"

record pipeline =
  is_running :: bool
  spark_session :: bool
  mongo_client :: bool
  update_interval :: real

definition setup_indexes :: "startup \<Rightarrow> unit result" where
  "setup_indexes st = (case mongo_indexes st of Some e \<Rightarrow> Returned () | None \<Rightarrow> Returned ())"

definition connect :: "startup \<Rightarrow> event list \<times> unit result" where
  "connect st =
     ([MongoConnect], case mongo_ping st of Some e \<Rightarrow> Raised e | None \<Rightarrow> setup_indexes st)"

definition setup_spark :: "startup \<Rightarrow> event list \<times> unit result" where
  "setup_spark st =
     ([SparkCreate], case spark_builder st of Some e \<Rightarrow> Raised e | None \<Rightarrow> Returned ())"

definition library_call :: "exn option \<Rightarrow> unit result" where
  "library_call outcome = (case outcome of Some e \<Rightarrow> Raised e | None \<Rightarrow> Returned ())"

definition init_pipeline :: "startup \<Rightarrow> real \<Rightarrow> event list \<times> pipeline result" where
  "init_pipeline st interval =
     (case library_call (twitter_client st) of Raised e \<Rightarrow> ([], Raised e) | Returned u1 \<Rightarrow>
      case library_call (reddit_client st) of Raised e \<Rightarrow> ([], Raised e) | Returned u2 \<Rightarrow>
      case library_call (youtube_client st) of Raised e \<Rightarrow> ([], Raised e) | Returned u3 \<Rightarrow>
      case library_call (analyzer_setup st) of Raised e \<Rightarrow> ([], Raised e) | Returned u4 \<Rightarrow>
      case connect st of (ev1, Raised e) \<Rightarrow> (ev1, Raised e) | (ev1, Returned u5) \<Rightarrow>
      case setup_spark st of (ev2, Raised e) \<Rightarrow> (ev1 @ ev2, Raised e) | (ev2, Returned u6) \<Rightarrow>
        (ev1 @ ev2, Returned \<lparr>is_running = False, spark_session = True, mongo_client = True,
                              update_interval = interval\<rparr>))"

section \<open>Scheduler: \<open>start_streaming\<close> and \<open>stop_streaming\<close>\<close>

definition stop_spark :: "pipeline \<Rightarrow> event list" where
  "stop_spark p = (if spark_session p then [SparkStop] else [])"

definition close_connection :: "pipeline \<Rightarrow> event list" where
  "close_connection p = (if mongo_client p then [MongoClose] else [])"

definition stop_streaming :: "pipeline \<Rightarrow> pipeline \<times> event list" where
  "stop_streaming p = (p\<lparr>is_running := False\<rparr>, stop_spark p @ close_connection p)"

text \<open>
  One pass of the \<open>while self.is_running\<close> loop, as the environment drives it: the
  cycle's own environment, the time the cycle took (\<open>time.time() - cycle_start\<close>, a real
  number), whether a \<open>KeyboardInterrupt\<close> arrives inside the \<open>try\<close> (taken to arrive as
  the cycle starts), and whether another thread calls \<open>stop_streaming\<close> while the cycle
  is in flight. That call runs to completion in its own thread: it clears the flag and
  releases both resources at once, while the loop reads the flag only in its \<open>while\<close>
  condition.
\<close>

record iteration =
  cycle :: cycle_env
  cycle_duration :: real
  interrupt :: bool
  stop_request :: bool

definition loop_body :: "pipeline \<Rightarrow> iteration \<Rightarrow> pipeline \<times> event list" where
  "loop_body p it =
     (let (p', ev_stop) = (if stop_request it then stop_streaming p else (p, [])) in
      case run_single_cycle (cycle it) of
        (ev_cycle, Returned u) \<Rightarrow>
          (let sleep_time = max 0 (update_interval p' - cycle_duration it) in
           (p', [CycleStarted] @ ev_stop @ ev_cycle @
                (if sleep_time > 0 then [Sleep sleep_time] else [OverrunWarning])))
      | (ev_cycle, Raised e) \<Rightarrow> (p', [CycleStarted] @ ev_stop @ ev_cycle @ [Sleep 5]))"

text \<open>
  The loop over the passes the environment provides. \<open>Exited\<close>: the loop was left (the
  flag was found cleared, or \<open>break\<close>); \<open>StillRunning\<close>: the given passes are used up and
  the flag is still set, so the loop has not returned.
\<close>

datatype run = Exited pipeline "event list" | StillRunning pipeline "event list"

fun streaming_loop :: "pipeline \<Rightarrow> iteration list \<Rightarrow> event list \<Rightarrow> run" where
  "streaming_loop p [] evs = (if is_running p then StillRunning p evs else Exited p evs)"
| "streaming_loop p (it # rest) evs =
     (if \<not> is_running p then Exited p evs
      else if interrupt it then Exited p (evs @ [CycleStarted])
      else case loop_body p it of (p', ev) \<Rightarrow> streaming_loop p' rest (evs @ ev))"

definition start_streaming :: "pipeline \<Rightarrow> iteration list \<Rightarrow> run" where
  "start_streaming p its =
     (case streaming_loop (p\<lparr>is_running := True\<rparr>) its [] of
        StillRunning p' evs \<Rightarrow> StillRunning p' evs
      | Exited p' evs \<Rightarrow> (case stop_streaming p' of (p'', ev) \<Rightarrow> Exited p'' (evs @ ev)))"

text \<open>Observations on a run.\<close>

definition run_events :: "run \<Rightarrow> event list" where
  "run_events r = (case r of Exited p evs \<Rightarrow> evs | StillRunning p evs \<Rightarrow> evs)"

definition has_exited :: "run \<Rightarrow> bool" where
  "has_exited r = (case r of Exited p evs \<Rightarrow> True | StillRunning p evs \<Rightarrow> False)"

fun slept :: "event list \<Rightarrow> real" where
  "slept [] = 0"
| "slept (Sleep t # evs) = t + slept evs"
| "slept (e # evs) = slept evs"

fun stored_posts :: "event list \<Rightarrow> pydict list" where
  "stored_posts [] = []"
| "stored_posts (InsertRawPosts posts # evs) = posts @ stored_posts evs"
| "stored_posts (e # evs) = stored_posts evs"

definition with_id :: "pyval \<Rightarrow> pydict list \<Rightarrow> pydict list" where
  "with_id i posts = filter (\<lambda>p. dict_get p ''id'' = i) posts"

section \<open>Concrete inputs\<close>

text \<open>
  Payloads as the three collectors build them (a tweet, a Reddit submission found twice
  in one cycle, a YouTube video, which has no \<open>text\<close>), a tweet whose text has exactly 10
  characters, and environments: one in which Spark, the scorer and the storage work, one
  in which a source, the scorer and both storage writes fail.
\<close>

definition tweet_a :: pydict where
  "tweet_a = [(''id'', PyInt 1001), (''text'', PyStr ''Python makes data work pleasant''),
     (''created_at'', PyTime 100), (''author_id'', PyInt 7), (''platform'', PyStr ''twitter''),
     (''likes'', PyInt 3), (''retweets'', PyInt 1), (''collected_at'', PyTime 200),
     (''keywords'', PyList [''python''])]"

definition reddit_a :: pydict where
  "reddit_a = [(''id'', PyStr ''abc''), (''title'', PyStr ''Thoughts on AI''),
     (''text'', PyStr ''Machine learning is everywhere now''), (''created_at'', PyTime 90),
     (''author'', PyStr ''alice''), (''platform'', PyStr ''reddit''),
     (''subreddit'', PyStr ''python''), (''upvotes'', PyInt 12), (''downvotes'', PyInt 0),
     (''score'', PyInt 12), (''num_comments'', PyInt 4), (''collected_at'', PyTime 201),
     (''keywords'', PyList [''python'', ''AI''])]"

definition reddit_a_again :: pydict where
  "reddit_a_again = [(''id'', PyStr ''abc''), (''title'', PyStr ''Thoughts on AI''),
     (''text'', PyStr ''Machine learning is everywhere now''), (''created_at'', PyTime 90),
     (''author'', PyStr ''alice''), (''platform'', PyStr ''reddit''),
     (''subreddit'', PyStr ''python''), (''upvotes'', PyInt 12), (''downvotes'', PyInt 0),
     (''score'', PyInt 12), (''num_comments'', PyInt 4), (''collected_at'', PyTime 202),
     (''keywords'', PyList [''python'', ''AI''])]"

definition video_a :: pydict where
  "video_a = [(''id'', PyStr ''v1''), (''title'', PyStr ''Learn Python in one hour''),
     (''description'', PyStr ''A complete course for beginners''), (''channel'', PyStr ''pychan''),
     (''published_at'', PyTime 80), (''platform'', PyStr ''youtube''),
     (''collected_at'', PyTime 203), (''keywords'', PyList [''python''])]"


definition spark_ok :: spark_env where
  "spark_ok = \<lparr>spark_failure = (\<lambda>batch. None), spark_clock = 300,
     java_string = (\<lambda>v. ''java.lang.Object'')\<rparr>"

definition flat_blob :: "string \<Rightarrow> (real \<times> real) result" where
  "flat_blob txt = Returned (1 / 2, 1 / 2)"

definition untrained :: analyzer where
  "untrained = \<lparr>is_trained = False, blob = flat_blob,
     model_predict = (\<lambda>txt. Raised (Exception ''no model''))\<rparr>"

definition picky_blob :: "string \<Rightarrow> (real \<times> real) result" where
  "picky_blob txt =
     (if length txt \<le> 32 then Returned (1 / 2, 1 / 2) else Raised (Exception ''scorer failed''))"

definition picky :: analyzer where
  "picky = \<lparr>is_trained = False, blob = picky_blob,
     model_predict = (\<lambda>txt. Raised (Exception ''no model''))\<rparr>"

definition storage_ok :: storage where
  "storage_ok = \<lparr>raw_insert_many = (\<lambda>batch. None), result_insert_many = (\<lambda>batch. None)\<rparr>"

definition storage_down :: storage where
  "storage_down = \<lparr>raw_insert_many = (\<lambda>batch. Some (Exception ''connection closed'')),
     result_insert_many = (\<lambda>batch. Some (Exception ''connection closed''))\<rparr>"

definition duplicate_cycle :: cycle_env where
  "duplicate_cycle =
     \<lparr>twitter_future = Raised (Exception ''timeout''),
      reddit_future = Returned [reddit_a, reddit_a_again],
      youtube_future = Returned [video_a],
      spark = spark_ok, sentiment_analyzer = untrained, db_client = storage_ok, clock = 300\<rparr>"

definition reddit_result :: sentiment_result where
  "reddit_result =
     \<lparr>post_id = PyStr ''abc'', platform = PyStr ''reddit'',
      result_text = PyStr ''Machine learning is everywhere now'', created_at = PyTime 90,
      sentiment_of = \<lparr>label = ''positive'', confidence = 1 / 2, polarity = Some (1 / 2),
                      subjectivity = Some (1 / 2), probabilities = None\<rparr>,
      processed_at = PyTime 300,
      metadata = [(''author_id'', PyNone), (''likes'', PyNone), (''retweets'', PyNone),
                  (''score'', PyInt 0)]\<rparr>"

definition duplicate_results :: "sentiment_result list" where
  "duplicate_results = [reddit_result, reddit_result]"

definition tweet_result :: sentiment_result where
  "tweet_result =
     \<lparr>post_id = PyStr ''1001'', platform = PyStr ''twitter'',
      result_text = PyStr ''Python makes data work pleasant'', created_at = PyTime 100,
      sentiment_of = \<lparr>label = ''positive'', confidence = 1 / 2, polarity = Some (1 / 2),
                      subjectivity = Some (1 / 2), probabilities = None\<rparr>,
      processed_at = PyTime 300,
      metadata = [(''author_id'', PyStr ''7''), (''likes'', PyInt 3), (''retweets'', PyInt 1),
                  (''score'', PyInt 0)]\<rparr>"


definition failing_cycle :: cycle_env where
  "failing_cycle =
     \<lparr>twitter_future = Returned [tweet_a],
      reddit_future = Returned [reddit_a],
      youtube_future = Raised (Exception ''quotaExceeded''),
      spark = spark_ok, sentiment_analyzer = picky, db_client = storage_down, clock = 300\<rparr>"

definition spark_down :: startup where
  "spark_down =
     \<lparr>twitter_client = None, reddit_client = None, youtube_client = None, analyzer_setup = None,
      mongo_ping = None, mongo_indexes = None,
      spark_builder = Some (Exception ''Java gateway process exited'')\<rparr>"

definition all_up :: startup where
  "all_up =
     \<lparr>twitter_client = None, reddit_client = None, youtube_client = None, analyzer_setup = None,
      mongo_ping = None, mongo_indexes = None, spark_builder = None\<rparr>"

definition built :: pipeline where
  "built = \<lparr>is_running = False, spark_session = True, mongo_client = True, update_interval = 30\<rparr>"

definition quiet_pass :: iteration where
  "quiet_pass = \<lparr>cycle = duplicate_cycle, cycle_duration = 12, interrupt = False, stop_request = False\<rparr>"

definition overrun_pass :: iteration where
  "overrun_pass = \<lparr>cycle = failing_cycle, cycle_duration = 45, interrupt = False, stop_request = False\<rparr>"

definition stop_pass :: iteration where
  "stop_pass = \<lparr>cycle = duplicate_cycle, cycle_duration = 12, interrupt = False, stop_request = True\<rparr>"

section \<open>Properties of the retry loop\<close>

lemma attempts_upt: "[0 ..< max_retries] = [0, Suc 0, Suc (Suc 0)]"
  by (simp add: max_retries_def upt_conv_Cons)

lemma rate_limit_message:
  assumes "is_rate_limit f"
  obtains m where "f = Some (TooManyRequests m)"
  using assms by (auto simp: is_rate_limit_def split: option.splits exn.splits)

text \<open>
  C1. When every attempt of a fetch call ends in a rate-limit error
  (\<open>tweepy.TooManyRequests\<close>), \<open>collect_tweets\<close> makes exactly 3 attempts, sleeps 60
  seconds before the second and 120 seconds before the third, and returns the empty list
  after the third failure: there is no fourth attempt and nothing is raised.
\<close>

theorem collect_tweets_rate_limited:
  "(\<forall>i. is_rate_limit (failure (api i))) \<Longrightarrow>
   collect_tweets api = \<lparr>returned = [], waits = [60, 120], attempts_made = 3\<rparr>"
proof -
  assume a: "\<forall>i. is_rate_limit (failure (api i))"
  have r: "is_rate_limit (failure (api i))" for i
    using a by simp
  obtain m0 where f0: "failure (api 0) = Some (TooManyRequests m0)"
    by (rule rate_limit_message [OF r])
  obtain m1 where f1: "failure (api (Suc 0)) = Some (TooManyRequests m1)"
    by (rule rate_limit_message [OF r])
  obtain m2 where f2: "failure (api (Suc (Suc 0))) = Some (TooManyRequests m2)"
    by (rule rate_limit_message [OF r])
  show ?thesis
    unfolding collect_tweets_def attempts_upt
    by (simp add: f0 f1 f2 max_retries_def Let_def)
qed

theorem collect_tweets_rate_limited_witness:
  "(\<forall>i. is_rate_limit (failure (rate_limited_api i))) \<and>
   collect_tweets rate_limited_api = \<lparr>returned = [], waits = [60, 120], attempts_made = 3\<rparr>"
proof -
  have h: "\<forall>i. is_rate_limit (failure (rate_limited_api i))"
    by (simp add: rate_limited_api_def is_rate_limit_def)
  from collect_tweets_rate_limited [OF h] h show ?thesis
    by simp
qed

text \<open>
  C2, as stated, fails. The fetch loop does not consult \<open>_should_retry\<close>: an
  ``unauthorized'' error is an ordinary exception there, so the loop sleeps 30 seconds
  twice and makes all 3 attempts. And \<open>_should_retry\<close> itself tests the network terms
  first, so a message that contains both ``connection'' and ``unauthorized'' is
  classified retryable.
\<close>

theorem unauthorized_retried_counterexample:
  "collect_tweets unauthorized_api = \<lparr>returned = [], waits = [30, 30], attempts_made = 3\<rparr> \<and>
   should_retry ''Connection refused: 401 Unauthorized'' 1 = True"
proof
  show "collect_tweets unauthorized_api = \<lparr>returned = [], waits = [30, 30], attempts_made = 3\<rparr>"
    unfolding collect_tweets_def attempts_upt
    by (simp add: unauthorized_api_def max_retries_def english_tweets_def)
  show "should_retry ''Connection refused: 401 Unauthorized'' 1 = True"
    by code_simp
qed

text \<open>
  C2, amended. \<open>_should_retry\<close> answers False for an error whose lower-cased message
  contains ``unauthorized'', ``forbidden'' or ``invalid credentials'', provided the message
  contains none of the network and rate-limit terms, which are tested first. The fetch loop
  of \<open>collect_tweets\<close> does not use this decision: when every attempt raises an exception
  other than \<open>TooManyRequests\<close>, it waits \<open>min(backoff_time, 30) = 30\<close> seconds before each
  of the two retries and returns the empty list after the third attempt.
\<close>

theorem auth_error_policy:
  "(contains_any auth_terms (str_lower msg) \<and>
    \<not> contains_any network_terms (str_lower msg) \<and>
    \<not> contains_any rate_terms (str_lower msg) \<longrightarrow> should_retry msg n = False) \<and>
   ((\<forall>i. \<exists>m. failure (api i) = Some (Exception m)) \<longrightarrow>
    collect_tweets api = \<lparr>returned = [], waits = [30, 30], attempts_made = 3\<rparr>)"
proof (intro conjI impI)
  assume "contains_any auth_terms (str_lower msg) \<and>
    \<not> contains_any network_terms (str_lower msg) \<and>
    \<not> contains_any rate_terms (str_lower msg)"
  then show "should_retry msg n = False"
    by (simp add: should_retry_def)
next
  assume a: "\<forall>i. \<exists>m. failure (api i) = Some (Exception m)"
  obtain m0 where f0: "failure (api 0) = Some (Exception m0)"
    using a by auto
  obtain m1 where f1: "failure (api (Suc 0)) = Some (Exception m1)"
    using a by auto
  obtain m2 where f2: "failure (api (Suc (Suc 0))) = Some (Exception m2)"
    using a by auto
  show "collect_tweets api = \<lparr>returned = [], waits = [30, 30], attempts_made = 3\<rparr>"
    unfolding collect_tweets_def attempts_upt
    by (simp add: f0 f1 f2 max_retries_def Let_def)
qed

theorem auth_error_policy_witness:
  "contains_any auth_terms (str_lower ''401 Unauthorized'') \<and>
   \<not> contains_any network_terms (str_lower ''401 Unauthorized'') \<and>
   \<not> contains_any rate_terms (str_lower ''401 Unauthorized'') \<and>
   should_retry ''401 Unauthorized'' 1 = False \<and>
   (\<forall>i. \<exists>m. failure (unauthorized_api i) = Some (Exception m)) \<and>
   collect_tweets unauthorized_api = \<lparr>returned = [], waits = [30, 30], attempts_made = 3\<rparr>"
proof -
  have h1: "contains_any auth_terms (str_lower ''401 Unauthorized'')"
    by code_simp
  have h2: "\<not> contains_any network_terms (str_lower ''401 Unauthorized'')"
    by code_simp
  have h3: "\<not> contains_any rate_terms (str_lower ''401 Unauthorized'')"
    by code_simp
  have h4: "\<forall>i. \<exists>m. failure (unauthorized_api i) = Some (Exception m)"
    by (simp add: unauthorized_api_def)
  from auth_error_policy [of "''401 Unauthorized''" 1 unauthorized_api] h1 h2 h3 h4
  show ?thesis
    by blast
qed

section \<open>Properties of the batch processor and the scoring loop\<close>

lemma map_of_schema:
  "map_of (map (\<lambda>f. (f, g f)) fs) k = (if k \<in> set fs then Some (g k) else None)"
  by (induction fs) auto

lemma dict_get_to_row:
  "dict_get (to_row sp post) k = (if k \<in> set define_schema then column_value sp post k else PyNone)"
  by (simp add: to_row_def dict_get_def [of "map _ _"] map_of_schema)

lemma dict_get_processing_columns:
  "k \<in> set define_schema \<Longrightarrow>
   dict_get (with_processing_columns now (to_row sp post)) k = column_value sp post k"
  by (auto simp: with_processing_columns_def dict_get_def to_row_def map_of_schema map_add_def
      split: option.splits)


lemma absent_in_cleaned_row:
  "k \<notin> set define_schema \<Longrightarrow> k \<notin> {''processing_time'', ''text_length'', ''word_count''} \<Longrightarrow>
   map_of (with_processing_columns now (to_row sp post)) k = None"
  by (auto simp: with_processing_columns_def to_row_def map_of_schema map_add_def
      split: option.splits)

lemma column_value_string:
  "column_value sp post ''id'' = spark_string sp (dict_get post ''id'')"
  "column_value sp post ''text'' = spark_string sp (dict_get post ''text'')"
  "column_value sp post ''platform'' = spark_string sp (dict_get post ''platform'')"
  "column_value sp post ''author_id'' = spark_string sp (dict_get post ''author_id'')"
  by (simp_all add: column_value_def string_columns_def)

lemma column_value_plain:
  "column_value sp post ''created_at'' = dict_get post ''created_at''"
  "column_value sp post ''likes'' = dict_get post ''likes''"
  "column_value sp post ''retweets'' = dict_get post ''retweets''"
  "column_value sp post ''collected_at'' = dict_get post ''collected_at''"
  "column_value sp post ''keywords'' = dict_get post ''keywords''"
  by (simp_all add: column_value_def string_columns_def)


lemma to_row_eq_iff:
  "to_row sp p1 = to_row sp p2 \<longleftrightarrow>
   (\<forall>f \<in> set define_schema. dict_get (to_row sp p1) f = dict_get (to_row sp p2) f)"
proof
  assume "to_row sp p1 = to_row sp p2"
  then show "\<forall>f \<in> set define_schema. dict_get (to_row sp p1) f = dict_get (to_row sp p2) f"
    by simp
next
  assume "\<forall>f \<in> set define_schema. dict_get (to_row sp p1) f = dict_get (to_row sp p2) f"
  then have "\<forall>f \<in> set define_schema. column_value sp p1 f = column_value sp p2 f"
    by (simp add: dict_get_to_row)
  then show "to_row sp p1 = to_row sp p2"
    unfolding to_row_def by (intro map_cong refl) simp
qed

lemma text_filter_to_row:
  "text_filter (to_row sp post) \<longleftrightarrow>
   (\<exists>t. spark_string sp (dict_get post ''text'') = PyStr t \<and> 10 < length t)"
  by (auto simp: text_filter_def dict_get_to_row define_schema_def column_value_string
      split: pyval.splits)


lemma process_batch_data_ok:
  "spark_failure sp posts = None \<Longrightarrow>
   process_batch_data sp posts =
     Returned (map (with_processing_columns (spark_clock sp))
                   (remdups (filter text_filter (map (to_row sp) posts))))"
  by (simp add: process_batch_data_def process_batch_body_def)


lemma with_processing_columns_inj:
  "with_processing_columns now (to_row sp p1) = with_processing_columns now (to_row sp p2) \<Longrightarrow>
   to_row sp p1 = to_row sp p2"
  by (simp add: with_processing_columns_def to_row_def define_schema_def)

lemma process_batch_data_distinct:
  "process_batch_data sp posts = Returned rows \<Longrightarrow> distinct rows"
  by (auto simp: process_batch_data_def process_batch_body_def distinct_map inj_on_def
      dest: with_processing_columns_inj split: result.splits if_splits option.splits)



text \<open>
  Rows whose scoring returns are all appended, in order, before the loop goes on with
  the rows after them.
\<close>

lemma score_posts_append:
  assumes "\<forall>row \<in> set scored. \<exists>t s. post_text row = PyStr t \<and> t \<noteq> [] \<and> predict_sentiment a t = Returned s"
  shows "\<exists>rs. map result_text rs = map post_text scored \<and>
              map post_id rs = map (\<lambda>row. dict_get row ''id'') scored \<and>
              (\<forall>more acc. score_posts a now (scored @ more) acc = score_posts a now more (acc @ rs))"
  using assms
proof (induction scored)
  case Nil
  show ?case
    by (rule exI [of _ "[]"]) simp
next
  case (Cons row scored)
  then obtain t s where t: "post_text row = PyStr t" "t \<noteq> []" "predict_sentiment a t = Returned s"
    by auto
  from Cons obtain rs where rs: "map result_text rs = map post_text scored"
    "map post_id rs = map (\<lambda>row. dict_get row ''id'') scored"
    "\<And>more acc. score_posts a now (scored @ more) acc = score_posts a now more (acc @ rs)"
    by auto
  show ?case
    by (rule exI [of _ "make_result now row (post_text row) s # rs"])
       (simp add: t rs predict_value_def make_result_def)
qed


lemma process_sentiment_batch_returns:
  "\<exists>rs. process_sentiment_batch sp a now posts = Returned rs"
  by (simp add: process_sentiment_batch_def process_batch_data_def split: result.splits)


section \<open>Properties of a cycle\<close>

lemma store_results_events:
  "store_results db now raw rs =
     ((if raw = [] then [] else [InsertRawPosts raw]) @
      (if rs = [] then []
       else [InsertSentimentResults (map (\<lambda>r. r\<lparr>processed_at := PyTime now\<rparr>) rs)]),
      Returned ())"
  by (auto simp: store_results_def insert_raw_posts_def insert_sentiment_results_def Let_def
      split: option.splits)

lemma run_single_cycle_returns: "snd (run_single_cycle env) = Returned ()"
  by (auto simp: run_single_cycle_def collect_data_from_all_sources_def store_results_events
      split: result.splits prod.splits)

lemma run_single_cycle_events:
  fixes env
  defines "raw \<equiv> future_posts (twitter_future env) @ future_posts (reddit_future env)
                   @ future_posts (youtube_future env)"
  obtains rs where
    "process_sentiment_batch (spark env) (sentiment_analyzer env) (clock env) raw = Returned rs"
    and "fst (run_single_cycle env) =
      (if raw = [] then []
       else InsertRawPosts raw #
         (if rs = [] then []
          else [InsertSentimentResults (map (\<lambda>r. r\<lparr>processed_at := PyTime (clock env)\<rparr>) rs)]))"
proof -
  obtain rs where
    rs: "process_sentiment_batch (spark env) (sentiment_analyzer env) (clock env) raw = Returned rs"
    using process_sentiment_batch_returns by blast
  have "fst (run_single_cycle env) =
      (if raw = [] then []
       else InsertRawPosts raw #
         (if rs = [] then []
          else [InsertSentimentResults (map (\<lambda>r. r\<lparr>processed_at := PyTime (clock env)\<rparr>) rs)]))"
    using rs
    by (simp add: run_single_cycle_def collect_data_from_all_sources_def store_results_events
        raw_def [symmetric])
  with rs show thesis by (rule that)
qed

lemma stored_posts_cycle:
  "stored_posts (fst (run_single_cycle env)) =
   future_posts (twitter_future env) @ future_posts (reddit_future env)
     @ future_posts (youtube_future env)"
proof -
  define raw where "raw = future_posts (twitter_future env) @ future_posts (reddit_future env)
                          @ future_posts (youtube_future env)"
  obtain rs where ev: "fst (run_single_cycle env) =
      (if raw = [] then []
       else InsertRawPosts raw #
         (if rs = [] then []
          else [InsertSentimentResults (map (\<lambda>r. r\<lparr>processed_at := PyTime (clock env)\<rparr>) rs)]))"
    unfolding raw_def by (rule run_single_cycle_events)
  show ?thesis
    unfolding raw_def [symmetric] ev by simp
qed

text \<open>Evaluation of the concrete batches and cycles.\<close>

lemma decimal_1001: "decimal_int 1001 = ''1001''"
  by code_simp

lemma decimal_7: "decimal_int 7 = ''7''"
  by code_simp

lemmas eval_defs = process_sentiment_batch_def process_batch_data_def process_batch_body_def
  spark_ok_def to_row_def define_schema_def text_filter_def dict_get_def column_value_def
  string_columns_def spark_string_def decimal_1001 decimal_7
  with_processing_columns_def post_text_def dict_get_default_def py_or_def predict_value_def
  predict_sentiment_def textblob_sentiment_def flat_blob_def make_result_def
  post_metadata_def

lemma duplicate_rows:
  "process_batch_data spark_ok [reddit_a, reddit_a_again, video_a] =
     Returned [with_processing_columns 300 (to_row spark_ok reddit_a),
               with_processing_columns 300 (to_row spark_ok reddit_a_again)]"
  by (simp add: process_batch_data_def process_batch_body_def text_filter_def
      spark_ok_def reddit_a_def reddit_a_again_def video_a_def to_row_def
      define_schema_def column_value_def string_columns_def spark_string_def dict_get_def)

lemma duplicate_batch:
  "process_sentiment_batch spark_ok untrained 300 [reddit_a, reddit_a_again, video_a]
   = Returned duplicate_results"
  by (simp add: eval_defs untrained_def reddit_a_def reddit_a_again_def video_a_def
      duplicate_results_def reddit_result_def)

lemma duplicate_cycle_events:
  "fst (run_single_cycle duplicate_cycle) =
     [InsertRawPosts [reddit_a, reddit_a_again, video_a], InsertSentimentResults duplicate_results]"
  by (simp add: run_single_cycle_def collect_data_from_all_sources_def future_posts_def
      duplicate_cycle_def duplicate_batch store_results_events)
     (simp add: duplicate_results_def reddit_result_def)



lemma failing_batch:
  "process_sentiment_batch spark_ok picky 300 [tweet_a, reddit_a] = Returned [tweet_result]"
  by (simp add: eval_defs picky_def picky_blob_def tweet_a_def reddit_a_def tweet_result_def)

lemma failing_cycle_events:
  "fst (run_single_cycle failing_cycle) =
     [InsertRawPosts [tweet_a, reddit_a], InsertSentimentResults [tweet_result]]"
  by (simp add: run_single_cycle_def collect_data_from_all_sources_def future_posts_def
      failing_cycle_def failing_batch store_results_events)
     (simp add: tweet_result_def)

section \<open>Heuristic scoring\<close>

text \<open>
  C4. Whenever TextBlob yields a polarity in \<open>[-1, 1]\<close> for a text, the heuristic path
  \<open>textblob_sentiment\<close> returns a label fixed by the polarity (above 0.1 positive, below
  -0.1 negative, otherwise neutral), so the label is one of positive, neutral and
  negative; the confidence is the absolute polarity and lies in \<open>[0, 1]\<close>.
\<close>

theorem textblob_sentiment_contract:
  assumes "blob0 txt = Returned (pol, subj)" and "- 1 \<le> pol" and "pol \<le> 1"
  shows "\<exists>s. textblob_sentiment blob0 txt = Returned s \<and>
           label s = (if pol > 0.1 then ''positive''
                      else if pol < - 0.1 then ''negative'' else ''neutral'') \<and>
           label s \<in> {''positive'', ''neutral'', ''negative''} \<and>
           confidence s = \<bar>pol\<bar> \<and> 0 \<le> confidence s \<and> confidence s \<le> 1"
  using assms by (auto simp: textblob_sentiment_def)

theorem textblob_sentiment_contract_witness:
  "flat_blob ''nice work'' = Returned (1 / 2, 1 / 2) \<and> - 1 \<le> (1 / 2 :: real) \<and> (1 / 2 :: real) \<le> 1 \<and>
   (\<exists>s. textblob_sentiment flat_blob ''nice work'' = Returned s \<and>
        label s = ''positive'' \<and> confidence s = 1 / 2)"
proof -
  have h: "flat_blob ''nice work'' = Returned (1 / 2, 1 / 2)"
    by (simp add: flat_blob_def)
  from textblob_sentiment_contract [of flat_blob "''nice work''" "1 / 2" "1 / 2"] h show ?thesis
    by auto
qed

section \<open>Normalization, filtering and deduplication\<close>

text \<open>
  C5 says that normalization falls back from an absent \<open>text\<close> to the title, then to the
  description, and that engagement fields default to 0. The code does attempt this
  (\<open>post.get('text', '') or post.get('title', '') or post.get('description', '')\<close>,
  \<open>post.get('author_id') or post.get('author')\<close>, \<open>post.get('score', 0)\<close>), but on the rows
  \<open>process_batch_data\<close> returns, which hold the schema columns only. On the payload of a
  YouTube video the expression itself yields the title, yet the pipeline produces no
  record from it: its row has a null \<open>text\<close> and is dropped before the expression is
  evaluated. For a Reddit submission, whose payload has a score of 12, an author and no
  \<open>likes\<close>, the record has score 0, a null author and null \<open>likes\<close>.
\<close>

theorem normalization_failing_input:
  "map_of video_a ''text'' = None \<and>
   post_text video_a = PyStr ''Learn Python in one hour'' \<and>
   process_batch_data spark_ok [video_a] = Returned [] \<and>
   process_sentiment_batch spark_ok untrained 300 [video_a] = Returned [] \<and>
   dict_get reddit_a ''score'' = PyInt 12 \<and> dict_get reddit_a ''author'' = PyStr ''alice'' \<and>
   map_of reddit_a ''likes'' = None \<and>
   process_sentiment_batch spark_ok untrained 300 [reddit_a] = Returned [reddit_result] \<and>
   metadata reddit_result = [(''author_id'', PyNone), (''likes'', PyNone), (''retweets'', PyNone),
                             (''score'', PyInt 0)]"
proof (intro conjI)
  show "process_batch_data spark_ok [video_a] = Returned []"
    by (simp add: eval_defs video_a_def)
  show "process_sentiment_batch spark_ok untrained 300 [video_a] = Returned []"
    by (simp add: eval_defs untrained_def video_a_def)
  show "process_sentiment_batch spark_ok untrained 300 [reddit_a] = Returned [reddit_result]"
    by (simp add: eval_defs untrained_def reddit_a_def reddit_result_def)
qed (simp_all add: video_a_def reddit_a_def reddit_result_def post_text_def py_or_def
       dict_get_default_def dict_get_def)




text \<open>
  C7, as stated, fails. A Reddit submission found twice in one cycle gives two payloads
  with the same \<open>id\<close>; both are in the batch handed to \<open>insert_raw_posts\<close>.
\<close>

theorem deduplication_counterexample:
  "length (with_id (PyStr ''abc'') (stored_posts (fst (run_single_cycle duplicate_cycle)))) = 2"
  by (simp add: duplicate_cycle_events with_id_def reddit_a_def reddit_a_again_def video_a_def
      dict_get_def)

text \<open>
  C7, amended. Within a cycle the raw posts handed to storage are the collected payloads
  of the three sources, unchanged and in order: nothing is removed, whatever the ids.
  Duplicates are removed only among the cleaned rows that go to scoring, and only when
  two rows agree on every schema column, not by id: when the Spark job does not fail, the
  rows \<open>process_batch_data\<close> returns are pairwise distinct, they are exactly the rows of the
  records that pass the text filter, and two such records whose rows differ in some
  schema column both keep their row, whether or not their ids are equal.
\<close>

theorem deduplication_scope:
  "stored_posts (fst (run_single_cycle env)) =
     future_posts (twitter_future env) @ future_posts (reddit_future env)
       @ future_posts (youtube_future env) \<and>
   (spark_failure sp posts = None \<longrightarrow>
    (\<exists>rows. process_batch_data sp posts = Returned rows \<and> distinct rows \<and>
       set rows = with_processing_columns (spark_clock sp) ` to_row sp `
                    {p \<in> set posts. text_filter (to_row sp p)} \<and>
       length rows = card (to_row sp ` {p \<in> set posts. text_filter (to_row sp p)}) \<and>
       (\<forall>p1 \<in> set posts. \<forall>p2 \<in> set posts.
          text_filter (to_row sp p1) \<and> text_filter (to_row sp p2) \<and>
          (\<exists>f \<in> set define_schema. dict_get (to_row sp p1) f \<noteq> dict_get (to_row sp p2) f) \<longrightarrow>
          with_processing_columns (spark_clock sp) (to_row sp p1) \<in> set rows \<and>
          with_processing_columns (spark_clock sp) (to_row sp p2) \<in> set rows \<and>
          with_processing_columns (spark_clock sp) (to_row sp p1)
            \<noteq> with_processing_columns (spark_clock sp) (to_row sp p2))))"
proof (intro conjI impI)
  show "stored_posts (fst (run_single_cycle env)) =
     future_posts (twitter_future env) @ future_posts (reddit_future env)
       @ future_posts (youtube_future env)"
    by (rule stored_posts_cycle)
next
  assume ok: "spark_failure sp posts = None"
  define kept where "kept = remdups (filter text_filter (map (to_row sp) posts))"
  define rows where "rows = map (with_processing_columns (spark_clock sp)) kept"
  have ret: "process_batch_data sp posts = Returned rows"
    using ok by (simp add: process_batch_data_ok rows_def kept_def)
  have d: "distinct rows"
    using ret by (rule process_batch_data_distinct)
  have kept_set: "set kept = to_row sp ` {p \<in> set posts. text_filter (to_row sp p)}"
    by (auto simp: kept_def)
  have members: "set rows = with_processing_columns (spark_clock sp) ` to_row sp `
                    {p \<in> set posts. text_filter (to_row sp p)}"
    by (simp add: rows_def kept_set)
  have "length rows = length kept"
    by (simp add: rows_def)
  also have "\<dots> = card (set kept)"
    by (simp add: kept_def length_remdups_card_conv)
  finally have len: "length rows = card (to_row sp ` {p \<in> set posts. text_filter (to_row sp p)})"
    by (simp add: kept_set)
  have pairs: "\<forall>p1 \<in> set posts. \<forall>p2 \<in> set posts.
          text_filter (to_row sp p1) \<and> text_filter (to_row sp p2) \<and>
          (\<exists>f \<in> set define_schema. dict_get (to_row sp p1) f \<noteq> dict_get (to_row sp p2) f) \<longrightarrow>
          with_processing_columns (spark_clock sp) (to_row sp p1) \<in> set rows \<and>
          with_processing_columns (spark_clock sp) (to_row sp p2) \<in> set rows \<and>
          with_processing_columns (spark_clock sp) (to_row sp p1)
            \<noteq> with_processing_columns (spark_clock sp) (to_row sp p2)"
  proof (intro ballI impI)
    fix p1 p2
    assume p: "p1 \<in> set posts" "p2 \<in> set posts"
      and h: "text_filter (to_row sp p1) \<and> text_filter (to_row sp p2) \<and>
          (\<exists>f \<in> set define_schema. dict_get (to_row sp p1) f \<noteq> dict_get (to_row sp p2) f)"
    from h have "to_row sp p1 \<noteq> to_row sp p2"
      by (simp add: to_row_eq_iff)
    then have "with_processing_columns (spark_clock sp) (to_row sp p1)
            \<noteq> with_processing_columns (spark_clock sp) (to_row sp p2)"
      using with_processing_columns_inj by blast
    moreover from p h have "with_processing_columns (spark_clock sp) (to_row sp p1) \<in> set rows"
      "with_processing_columns (spark_clock sp) (to_row sp p2) \<in> set rows"
      by (auto simp: members)
    ultimately show "with_processing_columns (spark_clock sp) (to_row sp p1) \<in> set rows \<and>
          with_processing_columns (spark_clock sp) (to_row sp p2) \<in> set rows \<and>
          with_processing_columns (spark_clock sp) (to_row sp p1)
            \<noteq> with_processing_columns (spark_clock sp) (to_row sp p2)"
      by simp
  qed
  from ret d members len pairs
  show "\<exists>rows. process_batch_data sp posts = Returned rows \<and> distinct rows \<and>
       set rows = with_processing_columns (spark_clock sp) ` to_row sp `
                    {p \<in> set posts. text_filter (to_row sp p)} \<and>
       length rows = card (to_row sp ` {p \<in> set posts. text_filter (to_row sp p)}) \<and>
       (\<forall>p1 \<in> set posts. \<forall>p2 \<in> set posts.
          text_filter (to_row sp p1) \<and> text_filter (to_row sp p2) \<and>
          (\<exists>f \<in> set define_schema. dict_get (to_row sp p1) f \<noteq> dict_get (to_row sp p2) f) \<longrightarrow>
          with_processing_columns (spark_clock sp) (to_row sp p1) \<in> set rows \<and>
          with_processing_columns (spark_clock sp) (to_row sp p2) \<in> set rows \<and>
          with_processing_columns (spark_clock sp) (to_row sp p1)
            \<noteq> with_processing_columns (spark_clock sp) (to_row sp p2))"
    by blast
qed

theorem deduplication_scope_witness:
  "spark_failure spark_ok [reddit_a, reddit_a_again, reddit_a, video_a] = None \<and>
   text_filter (to_row spark_ok reddit_a) \<and> text_filter (to_row spark_ok reddit_a_again) \<and>
   dict_get (to_row spark_ok reddit_a) ''id'' = dict_get (to_row spark_ok reddit_a_again) ''id'' \<and>
   dict_get (to_row spark_ok reddit_a) ''collected_at''
     \<noteq> dict_get (to_row spark_ok reddit_a_again) ''collected_at'' \<and>
   (\<exists>rows. process_batch_data spark_ok [reddit_a, reddit_a_again, reddit_a, video_a] = Returned rows \<and>
      length rows = 2 \<and>
      with_processing_columns 300 (to_row spark_ok reddit_a) \<in> set rows \<and>
      with_processing_columns 300 (to_row spark_ok reddit_a_again) \<in> set rows \<and>
      with_processing_columns 300 (to_row spark_ok reddit_a)
        \<noteq> with_processing_columns 300 (to_row spark_ok reddit_a_again))"
proof -
  let ?posts = "[reddit_a, reddit_a_again, reddit_a, video_a]"
  have h: "spark_failure spark_ok ?posts = None"
    by (simp add: spark_ok_def)
  have f1: "text_filter (to_row spark_ok reddit_a)"
    by (simp add: text_filter_to_row reddit_a_def dict_get_def spark_string_def)
  have f2: "text_filter (to_row spark_ok reddit_a_again)"
    by (simp add: text_filter_to_row reddit_a_again_def dict_get_def spark_string_def)
  have i: "dict_get (to_row spark_ok reddit_a) ''id'' = dict_get (to_row spark_ok reddit_a_again) ''id''"
    by (simp add: dict_get_to_row define_schema_def column_value_string)
       (simp add: reddit_a_def reddit_a_again_def dict_get_def)
  have c: "dict_get (to_row spark_ok reddit_a) ''collected_at''
     \<noteq> dict_get (to_row spark_ok reddit_a_again) ''collected_at''"
    by (simp add: dict_get_to_row define_schema_def column_value_plain)
       (simp add: reddit_a_def reddit_a_again_def dict_get_def)
  have col: "''collected_at'' \<in> set define_schema"
    by (simp add: define_schema_def)
  have differ: "\<exists>f \<in> set define_schema.
      dict_get (to_row spark_ok reddit_a) f \<noteq> dict_get (to_row spark_ok reddit_a_again) f"
    using col c by (rule bexI [rotated])
  have clock: "spark_clock spark_ok = 300"
    by (simp add: spark_ok_def)
  have m1: "reddit_a \<in> set ?posts" and m2: "reddit_a_again \<in> set ?posts"
    by simp_all
  from deduplication_scope [of duplicate_cycle spark_ok ?posts]
  have "spark_failure spark_ok ?posts = None \<longrightarrow>
    (\<exists>rows. process_batch_data spark_ok ?posts = Returned rows \<and> distinct rows \<and>
       set rows = with_processing_columns (spark_clock spark_ok) ` to_row spark_ok `
                    {p \<in> set ?posts. text_filter (to_row spark_ok p)} \<and>
       length rows = card (to_row spark_ok ` {p \<in> set ?posts. text_filter (to_row spark_ok p)}) \<and>
       (\<forall>p1 \<in> set ?posts. \<forall>p2 \<in> set ?posts.
          text_filter (to_row spark_ok p1) \<and> text_filter (to_row spark_ok p2) \<and>
          (\<exists>f \<in> set define_schema. dict_get (to_row spark_ok p1) f \<noteq> dict_get (to_row spark_ok p2) f) \<longrightarrow>
          with_processing_columns (spark_clock spark_ok) (to_row spark_ok p1) \<in> set rows \<and>
          with_processing_columns (spark_clock spark_ok) (to_row spark_ok p2) \<in> set rows \<and>
          with_processing_columns (spark_clock spark_ok) (to_row spark_ok p1)
            \<noteq> with_processing_columns (spark_clock spark_ok) (to_row spark_ok p2)))"
    by (rule conjunct2)
  from this [rule_format, OF h] obtain rows where
    ret: "process_batch_data spark_ok ?posts = Returned rows"
    and pairs: "\<forall>p1 \<in> set ?posts. \<forall>p2 \<in> set ?posts.
          text_filter (to_row spark_ok p1) \<and> text_filter (to_row spark_ok p2) \<and>
          (\<exists>f \<in> set define_schema. dict_get (to_row spark_ok p1) f \<noteq> dict_get (to_row spark_ok p2) f) \<longrightarrow>
          with_processing_columns (spark_clock spark_ok) (to_row spark_ok p1) \<in> set rows \<and>
          with_processing_columns (spark_clock spark_ok) (to_row spark_ok p2) \<in> set rows \<and>
          with_processing_columns (spark_clock spark_ok) (to_row spark_ok p1)
            \<noteq> with_processing_columns (spark_clock spark_ok) (to_row spark_ok p2)"
    by (elim exE conjE)
  from pairs [rule_format, OF m1 m2] f1 f2 differ
  have both: "with_processing_columns 300 (to_row spark_ok reddit_a) \<in> set rows \<and>
      with_processing_columns 300 (to_row spark_ok reddit_a_again) \<in> set rows \<and>
      with_processing_columns 300 (to_row spark_ok reddit_a)
        \<noteq> with_processing_columns 300 (to_row spark_ok reddit_a_again)"
    unfolding clock by (elim meta_mp) (intro conjI)
  have "process_batch_data spark_ok ?posts =
     Returned [with_processing_columns 300 (to_row spark_ok reddit_a_again),
               with_processing_columns 300 (to_row spark_ok reddit_a)]"
    by (simp add: process_batch_data_def process_batch_body_def text_filter_def
      spark_ok_def reddit_a_def reddit_a_again_def video_a_def to_row_def
      define_schema_def column_value_def string_columns_def spark_string_def dict_get_def)
  with ret have "rows = [with_processing_columns 300 (to_row spark_ok reddit_a_again),
               with_processing_columns 300 (to_row spark_ok reddit_a)]"
    by simp
  then have len: "length rows = 2"
    by simp
  from ret len both
  have ex: "\<exists>rows. process_batch_data spark_ok ?posts = Returned rows \<and>
      length rows = 2 \<and>
      with_processing_columns 300 (to_row spark_ok reddit_a) \<in> set rows \<and>
      with_processing_columns 300 (to_row spark_ok reddit_a_again) \<in> set rows \<and>
      with_processing_columns 300 (to_row spark_ok reddit_a)
        \<noteq> with_processing_columns 300 (to_row spark_ok reddit_a_again)"
    by (intro exI [of _ rows] conjI) (elim conjE, assumption)+
  show ?thesis
    by (intro conjI) (rule h f1 f2 i c ex)+
qed




section \<open>Properties of the scheduler loop\<close>

lemma cycle_event_kinds:
  assumes "e \<in> set (fst (run_single_cycle env))"
  shows "(\<exists>posts. e = InsertRawPosts posts) \<or> (\<exists>rs. e = InsertSentimentResults rs)"
proof -
  define raw where "raw = future_posts (twitter_future env) @ future_posts (reddit_future env)
                          @ future_posts (youtube_future env)"
  obtain rs where "fst (run_single_cycle env) =
      (if raw = [] then []
       else InsertRawPosts raw #
         (if rs = [] then []
          else [InsertSentimentResults (map (\<lambda>r. r\<lparr>processed_at := PyTime (clock env)\<rparr>) rs)]))"
    unfolding raw_def by (rule run_single_cycle_events)
  with assms show ?thesis
    by (auto split: if_splits)
qed

lemma slept_append: "slept (xs @ ys) = slept xs + slept ys"
  by (induction xs rule: slept.induct) simp_all

lemma slept_cycle: "slept (fst (run_single_cycle env)) = 0"
proof -
  have "(\<forall>e \<in> set evs. (\<exists>posts. e = InsertRawPosts posts) \<or> (\<exists>rs. e = InsertSentimentResults rs))
        \<Longrightarrow> slept evs = 0" for evs
    by (induction evs rule: slept.induct) auto
  then show ?thesis
    using cycle_event_kinds by blast
qed

lemma count_cycle:
  assumes "\<And>posts. e \<noteq> InsertRawPosts posts" and "\<And>rs. e \<noteq> InsertSentimentResults rs"
  shows "count_list (fst (run_single_cycle env)) e = 0"
  using assms cycle_event_kinds [of e env] by (auto simp: count_list_0_iff)

lemma loop_body_eq:
  "loop_body p it =
     (if stop_request it then p\<lparr>is_running := False\<rparr> else p,
      [CycleStarted] @ (if stop_request it then stop_spark p @ close_connection p else [])
        @ fst (run_single_cycle (cycle it))
        @ (if cycle_duration it < update_interval p
           then [Sleep (update_interval p - cycle_duration it)] else [OverrunWarning]))"
proof -
  obtain ev where ev: "run_single_cycle (cycle it) = (ev, Returned ())"
    using run_single_cycle_returns [of "cycle it"] by (cases "run_single_cycle (cycle it)") auto
  show ?thesis
    by (auto simp: loop_body_def ev stop_streaming_def Let_def max_def)
qed

lemma slept_loop_body:
  "slept (snd (loop_body p it)) = max 0 (update_interval p - cycle_duration it)"
  by (simp add: loop_body_eq slept_append slept_cycle stop_spark_def close_connection_def)

lemma count_started_loop_body: "count_list (snd (loop_body p it)) CycleStarted = 1"
  by (simp add: loop_body_eq count_cycle stop_spark_def close_connection_def)

lemma streaming_loop_quiet:
  assumes "is_running p" and "\<forall>it \<in> set its. \<not> interrupt it \<and> \<not> stop_request it"
  shows "streaming_loop p (its @ rest) evs =
         streaming_loop p rest (evs @ concat (map (\<lambda>it. snd (loop_body p it)) its))"
  using assms(2)
proof (induction its arbitrary: evs)
  case Nil
  then show ?case by simp
next
  case (Cons it its)
  then have q: "\<not> interrupt it" "\<not> stop_request it"
    and rest: "\<forall>it \<in> set its. \<not> interrupt it \<and> \<not> stop_request it"
    by simp_all
  have same: "fst (loop_body p it) = p"
    using q by (simp add: loop_body_eq)
  obtain ev where lb: "loop_body p it = (p, ev)"
    using same by (cases "loop_body p it") auto
  show ?case
    using assms(1) q by (simp add: lb Cons.IH [OF rest])
qed

lemma start_streaming_quiet:
  assumes "\<forall>it \<in> set its. \<not> interrupt it \<and> \<not> stop_request it"
  shows "start_streaming p its =
         StillRunning (p\<lparr>is_running := True\<rparr>)
           (concat (map (\<lambda>it. snd (loop_body (p\<lparr>is_running := True\<rparr>) it)) its))"
proof -
  have "streaming_loop (p\<lparr>is_running := True\<rparr>) (its @ []) [] =
        streaming_loop (p\<lparr>is_running := True\<rparr>) []
          ([] @ concat (map (\<lambda>it. snd (loop_body (p\<lparr>is_running := True\<rparr>) it)) its))"
    by (rule streaming_loop_quiet) (use assms in simp_all)
  then show ?thesis
    by (simp add: start_streaming_def)
qed

lemma streaming_loop_stopped: "\<not> is_running p \<Longrightarrow> streaming_loop p its evs = Exited p evs"
  by (cases its) simp_all

lemma start_streaming_stop:
  assumes "\<forall>it \<in> set pre. \<not> interrupt it \<and> \<not> stop_request it"
    and "stop_request it" and "\<not> interrupt it"
  shows "start_streaming p (pre @ it # post) =
         Exited (p\<lparr>is_running := False\<rparr>)
           (concat (map (\<lambda>it. snd (loop_body (p\<lparr>is_running := True\<rparr>) it)) pre)
            @ snd (loop_body (p\<lparr>is_running := True\<rparr>) it)
            @ stop_spark p @ close_connection p)"
proof -
  let ?p = "p\<lparr>is_running := True\<rparr>"
  have "streaming_loop ?p (pre @ it # post) [] =
        streaming_loop ?p (it # post) ([] @ concat (map (\<lambda>it. snd (loop_body ?p it)) pre))"
    by (rule streaming_loop_quiet) (use assms in simp_all)
  also have "\<dots> = Exited (p\<lparr>is_running := False\<rparr>)
                    (concat (map (\<lambda>it. snd (loop_body ?p it)) pre) @ snd (loop_body ?p it))"
    using assms(2,3) by (simp add: loop_body_eq [of ?p it] streaming_loop_stopped)
  finally show ?thesis
    by (simp add: start_streaming_def stop_streaming_def stop_spark_def close_connection_def)
qed

lemma count_concat_started:
  "count_list (concat (map (\<lambda>it. snd (loop_body p it)) its)) CycleStarted = length its"
  by (induction its) (simp_all add: count_started_loop_body)

lemma slept_concat:
  "slept (concat (map (\<lambda>it. snd (loop_body p it)) its))
   = (\<Sum>it\<leftarrow>its. max 0 (update_interval p - cycle_duration it))"
  by (induction its) (simp_all add: slept_append slept_loop_body)

lemma count_release_quiet:
  assumes "\<forall>it \<in> set its. \<not> stop_request it"
  shows "count_list (concat (map (\<lambda>it. snd (loop_body p it)) its)) SparkStop = 0"
    and "count_list (concat (map (\<lambda>it. snd (loop_body p it)) its)) MongoClose = 0"
  using assms by (induction its) (simp_all add: loop_body_eq count_cycle)

lemma stored_posts_append: "stored_posts (xs @ ys) = stored_posts xs @ stored_posts ys"
  by (induction xs rule: stored_posts.induct) simp_all

lemma stored_posts_loop_body:
  "stored_posts (snd (loop_body p it)) =
   future_posts (twitter_future (cycle it)) @ future_posts (reddit_future (cycle it))
     @ future_posts (youtube_future (cycle it))"
  by (simp add: loop_body_eq stored_posts_append stored_posts_cycle stop_spark_def
      close_connection_def)

lemma stored_posts_concat:
  "stored_posts (concat (map (\<lambda>it. snd (loop_body p it)) its)) =
   concat (map (\<lambda>it. future_posts (twitter_future (cycle it))
                        @ future_posts (reddit_future (cycle it))
                        @ future_posts (youtube_future (cycle it))) its)"
  by (induction its) (simp_all add: stored_posts_append stored_posts_loop_body)

lemma quiet_events:
  assumes "\<forall>it \<in> set its. \<not> interrupt it \<and> \<not> stop_request it"
  shows "concat (map (\<lambda>it. snd (loop_body p it)) its) =
         concat (map (\<lambda>it. CycleStarted # fst (run_single_cycle (cycle it)) @
                       (if cycle_duration it < update_interval p
                        then [Sleep (update_interval p - cycle_duration it)]
                        else [OverrunWarning])) its)"
  using assms by (induction its) (simp_all add: loop_body_eq)

text \<open>
  A scoring call that raises ends the scoring loop with the results of the rows scored
  before it.
\<close>

lemma score_posts_interrupted:
  assumes "\<forall>row \<in> set scored. \<exists>t s. post_text row = PyStr t \<and> t \<noteq> [] \<and> predict_sentiment a t = Returned s"
    and "truthy (post_text row)" and "predict_value a (post_text row) = Raised e"
  shows "map post_id (fst (score_posts a now (scored @ row # rest) []))
         = map (\<lambda>row. dict_get row ''id'') scored"
proof -
  from score_posts_append [OF assms(1), of now]
  obtain rs where rs: "map post_id rs = map (\<lambda>row. dict_get row ''id'') scored"
    "\<And>more acc. score_posts a now (scored @ more) acc = score_posts a now more (acc @ rs)"
    by auto
  from rs(2) [of "row # rest" "[]"] assms(2,3) rs(1) show ?thesis
    by simp
qed


section \<open>Scheduling, error propagation and shutdown\<close>

text \<open>
  C3. In every pass of the scheduler loop the time slept after \<open>run_single_cycle\<close> is
  exactly \<open>max(0, interval - elapsed)\<close>, which is never negative; when the cycle took as
  long as the interval or longer, nothing is slept and a warning is logged instead. No
  cycle is skipped: every pass runs its cycle, so the posts its sources returned are
  handed to storage, and as long as no stop is requested and no interrupt arrives the
  run consists, pass after pass, of the events of that pass's cycle followed by its sleep
  or its overrun warning, directly followed by the next pass; the sleeps add up to the
  sum of \<open>max(0, interval - elapsed)\<close> over the passes.
\<close>

theorem sleep_after_cycle:
  "slept (snd (loop_body p it)) = max 0 (update_interval p - cycle_duration it) \<and>
   0 \<le> slept (snd (loop_body p it)) \<and>
   (update_interval p \<le> cycle_duration it \<longrightarrow>
      slept (snd (loop_body p it)) = 0 \<and> last (snd (loop_body p it)) = OverrunWarning) \<and>
   stored_posts (snd (loop_body p it)) =
     future_posts (twitter_future (cycle it)) @ future_posts (reddit_future (cycle it))
       @ future_posts (youtube_future (cycle it)) \<and>
   ((\<forall>it \<in> set its. \<not> interrupt it \<and> \<not> stop_request it) \<longrightarrow>
      \<not> has_exited (start_streaming p its) \<and>
      count_list (run_events (start_streaming p its)) CycleStarted = length its \<and>
      slept (run_events (start_streaming p its))
        = (\<Sum>it\<leftarrow>its. max 0 (update_interval p - cycle_duration it)) \<and>
      run_events (start_streaming p its) =
        concat (map (\<lambda>it. CycleStarted # fst (run_single_cycle (cycle it)) @
                      (if cycle_duration it < update_interval p
                       then [Sleep (update_interval p - cycle_duration it)]
                       else [OverrunWarning])) its) \<and>
      stored_posts (run_events (start_streaming p its)) =
        concat (map (\<lambda>it. future_posts (twitter_future (cycle it))
                             @ future_posts (reddit_future (cycle it))
                             @ future_posts (youtube_future (cycle it))) its))"
proof (intro conjI impI)
  show "slept (snd (loop_body p it)) = max 0 (update_interval p - cycle_duration it)"
    by (rule slept_loop_body)
  show "0 \<le> slept (snd (loop_body p it))"
    by (simp add: slept_loop_body)
  show "stored_posts (snd (loop_body p it)) =
     future_posts (twitter_future (cycle it)) @ future_posts (reddit_future (cycle it))
       @ future_posts (youtube_future (cycle it))"
    by (rule stored_posts_loop_body)
next
  assume "update_interval p \<le> cycle_duration it"
  then show "slept (snd (loop_body p it)) = 0"
    by (simp add: slept_loop_body)
next
  assume "update_interval p \<le> cycle_duration it"
  then show "last (snd (loop_body p it)) = OverrunWarning"
    by (simp add: loop_body_eq)
next
  assume q: "\<forall>it \<in> set its. \<not> interrupt it \<and> \<not> stop_request it"
  note run = start_streaming_quiet [OF q, of p]
  show "\<not> has_exited (start_streaming p its)"
    by (simp add: run has_exited_def)
  show "count_list (run_events (start_streaming p its)) CycleStarted = length its"
    by (simp add: run run_events_def count_concat_started)
  show "slept (run_events (start_streaming p its))
        = (\<Sum>it\<leftarrow>its. max 0 (update_interval p - cycle_duration it))"
    by (simp add: run run_events_def slept_concat)
  show "run_events (start_streaming p its) =
        concat (map (\<lambda>it. CycleStarted # fst (run_single_cycle (cycle it)) @
                      (if cycle_duration it < update_interval p
                       then [Sleep (update_interval p - cycle_duration it)]
                       else [OverrunWarning])) its)"
    using quiet_events [OF q, of "p\<lparr>is_running := True\<rparr>"]
    by (simp add: run run_events_def cong: if_cong)
  show "stored_posts (run_events (start_streaming p its)) =
        concat (map (\<lambda>it. future_posts (twitter_future (cycle it))
                             @ future_posts (reddit_future (cycle it))
                             @ future_posts (youtube_future (cycle it))) its)"
    by (simp add: run run_events_def stored_posts_concat)
qed

theorem sleep_after_cycle_witness:
  "slept (snd (loop_body built quiet_pass)) = 18 \<and>
   update_interval built \<le> cycle_duration overrun_pass \<and>
   slept (snd (loop_body built overrun_pass)) = 0 \<and>
   last (snd (loop_body built overrun_pass)) = OverrunWarning \<and>
   \<not> interrupt overrun_pass \<and> \<not> stop_request overrun_pass \<and>
   \<not> interrupt quiet_pass \<and> \<not> stop_request quiet_pass \<and>
   \<not> has_exited (start_streaming built [overrun_pass, quiet_pass]) \<and>
   count_list (run_events (start_streaming built [overrun_pass, quiet_pass])) CycleStarted = 2 \<and>
   slept (run_events (start_streaming built [overrun_pass, quiet_pass])) = 18 \<and>
   run_events (start_streaming built [overrun_pass, quiet_pass]) =
     [CycleStarted, InsertRawPosts [tweet_a, reddit_a], InsertSentimentResults [tweet_result],
      OverrunWarning,
      CycleStarted, InsertRawPosts [reddit_a, reddit_a_again, video_a],
      InsertSentimentResults duplicate_results, Sleep 18] \<and>
   stored_posts (run_events (start_streaming built [overrun_pass, quiet_pass])) =
     [tweet_a, reddit_a, reddit_a, reddit_a_again, video_a]"
proof -
  have q: "\<not> interrupt overrun_pass" "\<not> stop_request overrun_pass"
    "\<not> interrupt quiet_pass" "\<not> stop_request quiet_pass"
    by (simp_all add: overrun_pass_def quiet_pass_def)
  have d: "update_interval built = 30" "cycle_duration overrun_pass = 45"
    "cycle_duration quiet_pass = 12"
    by (simp_all add: built_def overrun_pass_def quiet_pass_def)
  have c: "fst (run_single_cycle (cycle overrun_pass)) =
      [InsertRawPosts [tweet_a, reddit_a], InsertSentimentResults [tweet_result]]"
    "fst (run_single_cycle (cycle quiet_pass)) =
      [InsertRawPosts [reddit_a, reddit_a_again, video_a], InsertSentimentResults duplicate_results]"
    by (simp_all add: overrun_pass_def quiet_pass_def failing_cycle_events duplicate_cycle_events)
  have f: "future_posts (twitter_future (cycle overrun_pass))
      @ future_posts (reddit_future (cycle overrun_pass))
      @ future_posts (youtube_future (cycle overrun_pass)) = [tweet_a, reddit_a]"
    "future_posts (twitter_future (cycle quiet_pass))
      @ future_posts (reddit_future (cycle quiet_pass))
      @ future_posts (youtube_future (cycle quiet_pass)) = [reddit_a, reddit_a_again, video_a]"
    by (simp_all add: overrun_pass_def quiet_pass_def failing_cycle_def duplicate_cycle_def
        future_posts_def)
  from sleep_after_cycle [of built quiet_pass "[overrun_pass, quiet_pass]"]
    sleep_after_cycle [of built overrun_pass "[]"] q d c f
  show ?thesis
    by simp
qed

lemma init_pipeline_returns:
  "(\<exists>p. snd (init_pipeline st i) = Returned p) \<longleftrightarrow>
   (twitter_client st = None \<and> reddit_client st = None \<and> youtube_client st = None \<and>
    analyzer_setup st = None \<and> mongo_ping st = None \<and> spark_builder st = None)"
  by (auto simp: init_pipeline_def library_call_def connect_def setup_spark_def setup_indexes_def
      split: option.splits)

lemma init_pipeline_attempts:
  "count_list (fst (init_pipeline st i)) MongoConnect \<le> 1"
  "count_list (fst (init_pipeline st i)) SparkCreate \<le> 1"
  by (auto simp: init_pipeline_def library_call_def connect_def setup_spark_def setup_indexes_def
      split: option.splits)

text \<open>
  C9, as stated, fails: pipeline construction is also aborted when the Spark session
  cannot be created, although the storage connection was established.
\<close>

theorem startup_counterexample:
  "mongo_ping spark_down = None \<and>
   init_pipeline spark_down 30
     = ([MongoConnect, SparkCreate], Raised (Exception ''Java gateway process exited''))"
  by (simp add: spark_down_def init_pipeline_def library_call_def connect_def setup_spark_def
      setup_indexes_def)

text \<open>
  C9, amended. No error of a source fetch, of a scoring call or of a storage write
  aborts the cycle or the scheduler loop; the cycle moves on with the data that survived.
  \<open>run_single_cycle\<close> returns in every environment, and what it hands to storage does not
  depend on which calls failed: the posts of the sources that returned are all handed to
  \<open>insert_many\<close> (a source that raised or timed out contributes nothing), and so are the
  results that were scored (a scoring call that raises keeps the results of the rows
  scored before it), whether or not the write of the raw posts failed. As long as no stop
  is requested and no interrupt arrives the loop goes on and runs the cycle of every
  pass. Pipeline construction raises exactly when one of its component constructors
  raises: the storage connection (\<open>MongoDBClient.connect\<close>) and the Spark session
  (\<open>DataProcessor.setup_spark\<close>) log the failure and raise it again, the collector and
  analyzer constructors have no handler, and a failure to create the indexes is only
  logged. Neither the storage connection nor the Spark session is attempted a second time.
\<close>

theorem error_propagation:
  "snd (run_single_cycle env) = Returned () \<and>
   (\<exists>rs. process_sentiment_batch (spark env) (sentiment_analyzer env) (clock env)
            (future_posts (twitter_future env) @ future_posts (reddit_future env)
               @ future_posts (youtube_future env)) = Returned rs \<and>
      fst (run_single_cycle env) =
        (if future_posts (twitter_future env) @ future_posts (reddit_future env)
              @ future_posts (youtube_future env) = [] then []
         else InsertRawPosts (future_posts (twitter_future env) @ future_posts (reddit_future env)
                                @ future_posts (youtube_future env)) #
           (if rs = [] then []
            else [InsertSentimentResults (map (\<lambda>r. r\<lparr>processed_at := PyTime (clock env)\<rparr>) rs)]))) \<and>
   stored_posts (fst (run_single_cycle env)) =
     future_posts (twitter_future env) @ future_posts (reddit_future env)
       @ future_posts (youtube_future env) \<and>
   ((\<forall>row \<in> set scored. \<exists>t s. post_text row = PyStr t \<and> t \<noteq> [] \<and>
        predict_sentiment a t = Returned s) \<and>
    truthy (post_text failed) \<and> predict_value a (post_text failed) = Raised e \<longrightarrow>
      map post_id (fst (score_posts a now (scored @ failed # rest) []))
        = map (\<lambda>row. dict_get row ''id'') scored) \<and>
   ((\<forall>it \<in> set its. \<not> interrupt it \<and> \<not> stop_request it) \<longrightarrow>
      \<not> has_exited (start_streaming p its) \<and>
      count_list (run_events (start_streaming p its)) CycleStarted = length its \<and>
      stored_posts (run_events (start_streaming p its)) =
        concat (map (\<lambda>it. future_posts (twitter_future (cycle it))
                             @ future_posts (reddit_future (cycle it))
                             @ future_posts (youtube_future (cycle it))) its)) \<and>
   ((\<exists>p'. snd (init_pipeline st i) = Returned p') \<longleftrightarrow>
      (twitter_client st = None \<and> reddit_client st = None \<and> youtube_client st = None \<and>
       analyzer_setup st = None \<and> mongo_ping st = None \<and> spark_builder st = None)) \<and>
   count_list (fst (init_pipeline st i)) MongoConnect \<le> 1 \<and>
   count_list (fst (init_pipeline st i)) SparkCreate \<le> 1"
proof (intro conjI impI)
  show "snd (run_single_cycle env) = Returned ()"
    by (rule run_single_cycle_returns)
  show "\<exists>rs. process_sentiment_batch (spark env) (sentiment_analyzer env) (clock env)
            (future_posts (twitter_future env) @ future_posts (reddit_future env)
               @ future_posts (youtube_future env)) = Returned rs \<and>
      fst (run_single_cycle env) =
        (if future_posts (twitter_future env) @ future_posts (reddit_future env)
              @ future_posts (youtube_future env) = [] then []
         else InsertRawPosts (future_posts (twitter_future env) @ future_posts (reddit_future env)
                                @ future_posts (youtube_future env)) #
           (if rs = [] then []
            else [InsertSentimentResults (map (\<lambda>r. r\<lparr>processed_at := PyTime (clock env)\<rparr>) rs)]))"
    by (rule run_single_cycle_events [of env]) (rule exI, erule (1) conjI)
  show "stored_posts (fst (run_single_cycle env)) =
     future_posts (twitter_future env) @ future_posts (reddit_future env)
       @ future_posts (youtube_future env)"
    by (rule stored_posts_cycle)
next
  assume "(\<forall>row \<in> set scored. \<exists>t s. post_text row = PyStr t \<and> t \<noteq> [] \<and>
        predict_sentiment a t = Returned s) \<and>
    truthy (post_text failed) \<and> predict_value a (post_text failed) = Raised e"
  then show "map post_id (fst (score_posts a now (scored @ failed # rest) []))
        = map (\<lambda>row. dict_get row ''id'') scored"
    using score_posts_interrupted by blast
next
  assume q: "\<forall>it \<in> set its. \<not> interrupt it \<and> \<not> stop_request it"
  note run = start_streaming_quiet [OF q, of p]
  show "\<not> has_exited (start_streaming p its)"
    by (simp add: run has_exited_def)
  show "count_list (run_events (start_streaming p its)) CycleStarted = length its"
    by (simp add: run run_events_def count_concat_started)
  show "stored_posts (run_events (start_streaming p its)) =
        concat (map (\<lambda>it. future_posts (twitter_future (cycle it))
                             @ future_posts (reddit_future (cycle it))
                             @ future_posts (youtube_future (cycle it))) its)"
    by (simp add: run run_events_def stored_posts_concat)
qed (rule init_pipeline_returns init_pipeline_attempts)+

theorem error_propagation_witness:
  "snd (run_single_cycle failing_cycle) = Returned () \<and>
   youtube_future failing_cycle = Raised (Exception ''quotaExceeded'') \<and>
   raw_insert_many (db_client failing_cycle) [tweet_a, reddit_a] = Some (Exception ''connection closed'') \<and>
   fst (run_single_cycle failing_cycle) =
     [InsertRawPosts [tweet_a, reddit_a], InsertSentimentResults [tweet_result]] \<and>
   stored_posts (fst (run_single_cycle failing_cycle)) = [tweet_a, reddit_a] \<and>
   post_text (with_processing_columns 300 (to_row spark_ok tweet_a))
     = PyStr ''Python makes data work pleasant'' \<and>
   predict_sentiment picky ''Python makes data work pleasant''
     = Returned \<lparr>label = ''positive'', confidence = 1 / 2, polarity = Some (1 / 2),
                  subjectivity = Some (1 / 2), probabilities = None\<rparr> \<and>
   truthy (post_text (with_processing_columns 300 (to_row spark_ok reddit_a))) \<and>
   predict_value picky (post_text (with_processing_columns 300 (to_row spark_ok reddit_a)))
     = Raised (Exception ''scorer failed'') \<and>
   map post_id (fst (score_posts picky 300
       ([with_processing_columns 300 (to_row spark_ok tweet_a)]
        @ with_processing_columns 300 (to_row spark_ok reddit_a) # []) []))
     = [PyStr ''1001''] \<and>
   \<not> interrupt overrun_pass \<and> \<not> stop_request overrun_pass \<and>
   \<not> has_exited (start_streaming built [overrun_pass, overrun_pass]) \<and>
   count_list (run_events (start_streaming built [overrun_pass, overrun_pass])) CycleStarted = 2 \<and>
   stored_posts (run_events (start_streaming built [overrun_pass, overrun_pass]))
     = [tweet_a, reddit_a, tweet_a, reddit_a] \<and>
   (\<exists>p'. snd (init_pipeline all_up 30) = Returned p') \<and>
   (\<nexists>p'. snd (init_pipeline spark_down 30) = Returned p')"
proof -
  let ?tweet_row = "with_processing_columns 300 (to_row spark_ok tweet_a)"
  let ?reddit_row = "with_processing_columns 300 (to_row spark_ok reddit_a)"
  have q: "\<not> interrupt overrun_pass" "\<not> stop_request overrun_pass"
    by (simp_all add: overrun_pass_def)
  have env: "youtube_future failing_cycle = Raised (Exception ''quotaExceeded'')"
    "raw_insert_many (db_client failing_cycle) [tweet_a, reddit_a] = Some (Exception ''connection closed'')"
    by (simp_all add: failing_cycle_def storage_down_def)
  have f: "future_posts (twitter_future failing_cycle) @ future_posts (reddit_future failing_cycle)
      @ future_posts (youtube_future failing_cycle) = [tweet_a, reddit_a]"
    by (simp add: failing_cycle_def future_posts_def)
  have fc: "future_posts (twitter_future (cycle overrun_pass))
      @ future_posts (reddit_future (cycle overrun_pass))
      @ future_posts (youtube_future (cycle overrun_pass)) = [tweet_a, reddit_a]"
    by (simp add: overrun_pass_def failing_cycle_def future_posts_def)
  have t1: "post_text ?tweet_row = PyStr ''Python makes data work pleasant''"
    by (simp add: eval_defs tweet_a_def)
  have t2: "predict_sentiment picky ''Python makes data work pleasant''
     = Returned \<lparr>label = ''positive'', confidence = 1 / 2, polarity = Some (1 / 2),
                  subjectivity = Some (1 / 2), probabilities = None\<rparr>"
    by (simp add: predict_sentiment_def picky_def picky_blob_def textblob_sentiment_def)
  have t3: "post_text ?reddit_row = PyStr ''Machine learning is everywhere now''"
    by (simp add: eval_defs reddit_a_def)
  have t4: "truthy (post_text ?reddit_row)"
    by (simp add: t3)
  have t5: "predict_value picky (post_text ?reddit_row) = Raised (Exception ''scorer failed'')"
    by (simp add: t3 predict_value_def predict_sentiment_def picky_def picky_blob_def
        textblob_sentiment_def)
  have sc: "\<forall>row \<in> set [?tweet_row]. \<exists>t s. post_text row = PyStr t \<and> t \<noteq> [] \<and>
        predict_sentiment picky t = Returned s"
    using t1 t2 by simp
  have id: "dict_get ?tweet_row ''id'' = PyStr ''1001''"
    by (simp add: dict_get_processing_columns define_schema_def column_value_string)
       (simp add: tweet_a_def dict_get_def spark_string_def decimal_1001)
  have up: "twitter_client all_up = None \<and> reddit_client all_up = None \<and>
      youtube_client all_up = None \<and> analyzer_setup all_up = None \<and> mongo_ping all_up = None \<and>
      spark_builder all_up = None"
    by (simp add: all_up_def)
  have down: "spark_builder spark_down \<noteq> None"
    by (simp add: spark_down_def)
  note a = error_propagation [of failing_cycle "[?tweet_row]" picky ?reddit_row
      "Exception ''scorer failed''" 300 "[]" "[overrun_pass, overrun_pass]" built all_up 30]
  note b = error_propagation [of failing_cycle "[]" picky ?reddit_row
      "Exception ''scorer failed''" 300 "[]" "[]" built spark_down 30]
  from a sc t4 t5 id
  have kept: "map post_id (fst (score_posts picky 300 ([?tweet_row] @ ?reddit_row # []) []))
     = [PyStr ''1001'']"
    by simp
  from a have ret: "snd (run_single_cycle failing_cycle) = Returned ()"
    by (rule conjunct1)
  from a f have st: "stored_posts (fst (run_single_cycle failing_cycle)) = [tweet_a, reddit_a]"
    by simp
  from a q fc have loop: "\<not> has_exited (start_streaming built [overrun_pass, overrun_pass])"
    "count_list (run_events (start_streaming built [overrun_pass, overrun_pass])) CycleStarted = 2"
    "stored_posts (run_events (start_streaming built [overrun_pass, overrun_pass]))
     = [tweet_a, reddit_a, tweet_a, reddit_a]"
    by simp_all
  from a up have i1: "\<exists>p'. snd (init_pipeline all_up 30) = Returned p'"
    by simp
  from b down have i2: "\<nexists>p'. snd (init_pipeline spark_down 30) = Returned p'"
    by simp
  show ?thesis
    by (intro conjI) (rule ret env failing_cycle_events st t1 t2 t4 t5 kept q loop i1 i2)+
qed

text \<open>
  C10, as stated, fails. A stop requested while a cycle is in flight is itself a call of
  \<open>stop_streaming\<close>, which releases the Spark session and the storage connection at once;
  when the loop then leaves, it calls \<open>stop_streaming\<close> again. Each resource is released
  twice.
\<close>

theorem release_counterexample:
  "count_list (run_events (start_streaming built [stop_pass])) SparkStop = 2 \<and>
   count_list (run_events (start_streaming built [stop_pass])) MongoClose = 2"
proof -
  have s: "stop_request stop_pass" "\<not> interrupt stop_pass"
    by (simp_all add: stop_pass_def)
  have "start_streaming built ([] @ stop_pass # []) =
         Exited (built\<lparr>is_running := False\<rparr>)
           (concat (map (\<lambda>it. snd (loop_body (built\<lparr>is_running := True\<rparr>) it)) [])
            @ snd (loop_body (built\<lparr>is_running := True\<rparr>) stop_pass)
            @ stop_spark built @ close_connection built)"
    by (rule start_streaming_stop) (simp_all add: s)
  then show ?thesis
    by (simp add: run_events_def loop_body_eq s count_cycle stop_spark_def close_connection_def
        built_def)
qed

text \<open>
  C10, amended. When \<open>stop_streaming\<close> is called while the pipeline is running, the loop
  reads the flag only at its next iteration boundary: the cycle in flight completes, with
  the sleep or the overrun warning that follows it, no further cycle starts, and the loop
  leaves. The stop call itself releases the Spark session and the storage connection at
  once, and the loop releases them again on exit (the handles are never cleared, so
  nothing prevents the second release): \<open>spark.stop()\<close> and \<open>client.close()\<close> are each
  called twice.
\<close>

theorem stop_at_boundary:
  assumes "\<forall>it \<in> set pre. \<not> interrupt it \<and> \<not> stop_request it"
    and "stop_request it" and "\<not> interrupt it"
    and "spark_session p" and "mongo_client p"
  shows "has_exited (start_streaming p (pre @ it # post)) \<and>
     run_events (start_streaming p (pre @ it # post)) =
       run_events (start_streaming p pre)
       @ [CycleStarted, SparkStop, MongoClose] @ fst (run_single_cycle (cycle it))
       @ (if cycle_duration it < update_interval p
          then [Sleep (update_interval p - cycle_duration it)] else [OverrunWarning])
       @ [SparkStop, MongoClose] \<and>
     count_list (run_events (start_streaming p (pre @ it # post))) CycleStarted = length pre + 1 \<and>
     count_list (run_events (start_streaming p (pre @ it # post))) SparkStop = 2 \<and>
     count_list (run_events (start_streaming p (pre @ it # post))) MongoClose = 2"
proof -
  let ?p = "p\<lparr>is_running := True\<rparr>"
  let ?before = "concat (map (\<lambda>it. snd (loop_body ?p it)) pre)"
  have quiet: "\<forall>it \<in> set pre. \<not> stop_request it"
    using assms(1) by simp
  have stop: "start_streaming p (pre @ it # post) =
      Exited (p\<lparr>is_running := False\<rparr>)
        (?before @ snd (loop_body ?p it) @ stop_spark p @ close_connection p)"
    by (rule start_streaming_stop [OF assms(1-3)])
  have before: "run_events (start_streaming p pre) = ?before"
    by (simp add: start_streaming_quiet [OF assms(1)] run_events_def)
  have body: "snd (loop_body ?p it) =
      [CycleStarted, SparkStop, MongoClose] @ fst (run_single_cycle (cycle it))
       @ (if cycle_duration it < update_interval p
          then [Sleep (update_interval p - cycle_duration it)] else [OverrunWarning])"
    using assms(2,4,5) by (simp add: loop_body_eq stop_spark_def close_connection_def)
  have release: "stop_spark p @ close_connection p = [SparkStop, MongoClose]"
    using assms(4,5) by (simp add: stop_spark_def close_connection_def)
  have events: "run_events (start_streaming p (pre @ it # post)) =
      ?before @ snd (loop_body ?p it) @ [SparkStop, MongoClose]"
    by (simp add: stop run_events_def release)
  have "has_exited (start_streaming p (pre @ it # post))"
    by (simp add: stop has_exited_def)
  moreover have "run_events (start_streaming p (pre @ it # post)) =
       run_events (start_streaming p pre)
       @ [CycleStarted, SparkStop, MongoClose] @ fst (run_single_cycle (cycle it))
       @ (if cycle_duration it < update_interval p
          then [Sleep (update_interval p - cycle_duration it)] else [OverrunWarning])
       @ [SparkStop, MongoClose]"
    by (simp add: events before body)
  moreover have "count_list (run_events (start_streaming p (pre @ it # post))) CycleStarted
                 = length pre + 1"
    by (simp add: events count_concat_started count_started_loop_body)
  moreover have "count_list (run_events (start_streaming p (pre @ it # post))) SparkStop = 2"
    by (simp add: events count_release_quiet [OF quiet] body count_cycle)
  moreover have "count_list (run_events (start_streaming p (pre @ it # post))) MongoClose = 2"
    by (simp add: events count_release_quiet [OF quiet] body count_cycle)
  ultimately show ?thesis
    by blast
qed

theorem stop_at_boundary_witness:
  "\<not> interrupt quiet_pass \<and> \<not> stop_request quiet_pass \<and>
   stop_request stop_pass \<and> \<not> interrupt stop_pass \<and>
   spark_session built \<and> mongo_client built \<and>
   has_exited (start_streaming built ([quiet_pass] @ stop_pass # [quiet_pass])) \<and>
   count_list (run_events (start_streaming built ([quiet_pass] @ stop_pass # [quiet_pass])))
     CycleStarted = 2 \<and>
   count_list (run_events (start_streaming built ([quiet_pass] @ stop_pass # [quiet_pass])))
     SparkStop = 2 \<and>
   count_list (run_events (start_streaming built ([quiet_pass] @ stop_pass # [quiet_pass])))
     MongoClose = 2"
proof -
  have q: "\<forall>it \<in> set [quiet_pass]. \<not> interrupt it \<and> \<not> stop_request it"
    by (simp add: quiet_pass_def)
  have s: "stop_request stop_pass" "\<not> interrupt stop_pass"
    by (simp_all add: stop_pass_def)
  have b: "spark_session built" "mongo_client built"
    by (simp_all add: built_def)
  note t = stop_at_boundary [OF q s b, of "[quiet_pass]"]
  from t have e: "has_exited (start_streaming built ([quiet_pass] @ stop_pass # [quiet_pass]))"
    by blast
  from t have c1: "count_list (run_events (start_streaming built ([quiet_pass] @ stop_pass # [quiet_pass])))
     CycleStarted = length [quiet_pass] + 1"
    by blast
  from t have c2: "count_list (run_events (start_streaming built ([quiet_pass] @ stop_pass # [quiet_pass])))
     SparkStop = 2"
    by blast
  from t have c3: "count_list (run_events (start_streaming built ([quiet_pass] @ stop_pass # [quiet_pass])))
     MongoClose = 2"
    by blast
  from e c1 c2 c3 q s b show ?thesis
    by simp
qed

end
